theory Spec2Isabelle
  imports Complex_Main "HOL-Library.Char_ord" "HOL-Library.List_Lexorder" "HOL-Library.AList"
begin

section \<open>Python values, strings and dictionaries\<close>

text \<open>
  The record values of the program are the scalars of its data model: \<open>None\<close>, integers,
  floats and strings. \<open>VFloat r\<close> stands for the float whose exact value is the real
  number \<open>r\<close>; arithmetic on floats is exact here, where Python rounds every result to
  the nearest double, and there is no infinity or NaN among the floats. The NaN that the
  file readers produce for a missing cell exists only before cleaning, so it is a
  constructor of the raw values alone. A string is a sequence of code points below 256,
  one \<open>char\<close> each, and the string operations below are Python's on exactly these code
  points. A dictionary is an association list in insertion order; assignment
  \<open>d[k] = v\<close> is \<open>AList.update k v d\<close> (replace in place, or append).
\<close>

datatype pyval = VNone | VInt int | VFloat real | VStr string

datatype rawval = NaN | Val pyval

text \<open>The argument of the entry points: a list of records, or anything that is not a list.\<close>

datatype 'v pydata = NotList | Records "(string \<times> 'v) list list"

datatype exn = ValueError | TypeError | ZeroDivisionError | StatisticsError

text \<open>
  The whitespace of \<open>str.strip()\<close>: the ASCII controls 0x09 to 0x0D and 0x1C to 0x1F, the
  space, NEL (0x85) and the no-break space (0xA0).
\<close>

definition is_space :: "char \<Rightarrow> bool" where
  "is_space c \<longleftrightarrow> c \<in> set [CHR 0x09, CHR 0x0A, CHR 0x0B, CHR 0x0C, CHR 0x0D,
                            CHR 0x1C, CHR 0x1D, CHR 0x1E, CHR 0x1F, CHR '' '',
                            CHR 0x85, CHR 0xA0]"

definition strip :: "string \<Rightarrow> string" where
  "strip s = rev (dropWhile is_space (rev (dropWhile is_space s)))"

text \<open>
  \<open>str.lower()\<close>: the letters A to Z and the capital letters 0xC0 to 0xDE of Latin-1
  (all but the multiplication sign 0xD7) move up by 0x20.
\<close>

definition upper_chars :: "char list" where
  "upper_chars = ''ABCDEFGHIJKLMNOPQRSTUVWXYZ'' @
     [CHR 0xC0, CHR 0xC1, CHR 0xC2, CHR 0xC3, CHR 0xC4, CHR 0xC5, CHR 0xC6, CHR 0xC7,
      CHR 0xC8, CHR 0xC9, CHR 0xCA, CHR 0xCB, CHR 0xCC, CHR 0xCD, CHR 0xCE, CHR 0xCF,
      CHR 0xD0, CHR 0xD1, CHR 0xD2, CHR 0xD3, CHR 0xD4, CHR 0xD5, CHR 0xD6,
      CHR 0xD8, CHR 0xD9, CHR 0xDA, CHR 0xDB, CHR 0xDC, CHR 0xDD, CHR 0xDE]"

definition lower_chars :: "char list" where
  "lower_chars = ''abcdefghijklmnopqrstuvwxyz'' @
     [CHR 0xE0, CHR 0xE1, CHR 0xE2, CHR 0xE3, CHR 0xE4, CHR 0xE5, CHR 0xE6, CHR 0xE7,
      CHR 0xE8, CHR 0xE9, CHR 0xEA, CHR 0xEB, CHR 0xEC, CHR 0xED, CHR 0xEE, CHR 0xEF,
      CHR 0xF0, CHR 0xF1, CHR 0xF2, CHR 0xF3, CHR 0xF4, CHR 0xF5, CHR 0xF6,
      CHR 0xF8, CHR 0xF9, CHR 0xFA, CHR 0xFB, CHR 0xFC, CHR 0xFD, CHR 0xFE]"

definition lower_char :: "char \<Rightarrow> char" where
  "lower_char c = (case map_of (zip upper_chars lower_chars) c of Some l \<Rightarrow> l | None \<Rightarrow> c)"

definition lower :: "string \<Rightarrow> string" where
  "lower s = map lower_char s"

definition replace_char :: "char \<Rightarrow> char \<Rightarrow> string \<Rightarrow> string" where
  "replace_char a b s = map (\<lambda>c. if c = a then b else c) s"

text \<open>
  The characters that \<open>str.isdigit()\<close> accepts: the decimal digits and the superscript
  digits two, three and one (0xB2, 0xB3, 0xB9). \<open>float\<close> reads the decimal digits only.
\<close>

definition is_decimal :: "char \<Rightarrow> bool" where
  "is_decimal c \<longleftrightarrow> c \<in> set ''0123456789''"

definition is_digit :: "char \<Rightarrow> bool" where
  "is_digit c \<longleftrightarrow> is_decimal c \<or> c \<in> set [CHR 0xB2, CHR 0xB3, CHR 0xB9]"

definition isdigit :: "string \<Rightarrow> bool" where
  "isdigit s \<longleftrightarrow> s \<noteq> [] \<and> list_all is_digit s"

text \<open>\<open>value.replace('.', '', 1).isdigit()\<close>: digits with at most one decimal point.\<close>

definition digit_like :: "string \<Rightarrow> bool" where
  "digit_like s = isdigit (remove1 (CHR ''.'') s)"

fun starts_with :: "string \<Rightarrow> string \<Rightarrow> bool" where
  "starts_with s [] = True"
| "starts_with [] (p # ps) = False"
| "starts_with (c # cs) (p # ps) = (c = p \<and> starts_with cs ps)"

text \<open>\<open>sub in s\<close> on strings.\<close>

fun contains :: "string \<Rightarrow> string \<Rightarrow> bool" where
  "contains [] sub = (sub = [])"
| "contains (c # cs) sub = (starts_with (c # cs) sub \<or> contains cs sub)"

text \<open>\<open>any(name in key.lower() for name in names)\<close>.\<close>

definition name_matches :: "string list \<Rightarrow> string \<Rightarrow> bool" where
  "name_matches names key = list_ex (\<lambda>name. contains (lower key) name) names"

subsection \<open>The conversion float(s) of a string\<close>

text \<open>
  \<open>float\<close> removes the whitespace 0x09 to 0x0D, space, 0x85 and 0xA0 at both ends (not
  0x1C to 0x1F) and then reads
  \<^verbatim>\<open>[sign] (digitpart ["." [digitpart]] | "." digitpart) [("e"|"E") [sign] digitpart]\<close>
  where a digit part is decimal digits with single underscores between them, or one of
  \<open>inf\<close>, \<open>infinity\<close>, \<open>nan\<close> in any case. Anything else is a \<open>ValueError\<close>.
  The three words denote floats that are no real numbers and are reported as
  \<open>NotFinite\<close>. A numeral is read as its exact value, whatever its size.
\<close>

datatype float_parse = Parsed real | NotFinite | Malformed

definition is_float_space :: "char \<Rightarrow> bool" where
  "is_float_space c \<longleftrightarrow> c \<in> set [CHR 0x09, CHR 0x0A, CHR 0x0B, CHR 0x0C, CHR 0x0D, CHR '' '',
                                  CHR 0x85, CHR 0xA0]"

definition digit_val :: "char \<Rightarrow> nat" where
  "digit_val c = length (takeWhile (\<lambda>d. d \<noteq> c) ''0123456789'')"

definition nat_of_digits :: "string \<Rightarrow> nat" where
  "nat_of_digits s = foldl (\<lambda>a c. 10 * a + digit_val c) 0 s"

text \<open>The rest of a digit part after a digit: its digits, and what follows the part.\<close>

fun more_digits :: "string \<Rightarrow> string \<times> string" where
  "more_digits [] = ([], [])"
| "more_digits [c] = (if is_decimal c then ([c], []) else ([], [c]))"
| "more_digits (c # d # cs) =
     (if is_decimal c then (case more_digits (d # cs) of (ds, r) \<Rightarrow> (c # ds, r))
      else if c = CHR ''_'' \<and> is_decimal d then (case more_digits cs of (ds, r) \<Rightarrow> (d # ds, r))
      else ([], c # d # cs))"

text \<open>A digit part at the head of the string, empty when the string starts otherwise.\<close>

fun digitpart :: "string \<Rightarrow> string \<times> string" where
  "digitpart [] = ([], [])"
| "digitpart (c # cs) =
     (if is_decimal c then (case more_digits cs of (ds, r) \<Rightarrow> (c # ds, r)) else ([], c # cs))"

fun signed :: "string \<Rightarrow> bool \<times> string" where
  "signed [] = (False, [])"
| "signed (c # cs) =
     (if c = CHR ''-'' then (True, cs) else if c = CHR ''+'' then (False, cs) else (False, c # cs))"

text \<open>The exponent that may follow the mantissa: absent, valid to the end, or malformed.\<close>

fun exponent :: "string \<Rightarrow> int option" where
  "exponent [] = Some 0"
| "exponent (c # cs) =
     (if c = CHR ''e'' \<or> c = CHR ''E'' then
        (case signed cs of
           (neg, r) \<Rightarrow>
             (case digitpart r of
                (ds, r') \<Rightarrow>
                  if ds \<noteq> [] \<and> r' = [] then
                    Some (if neg then - int (nat_of_digits ds) else int (nat_of_digits ds))
                  else None))
      else None)"

definition scale :: "real \<Rightarrow> int \<Rightarrow> real" where
  "scale x e = (if e < 0 then x / 10 ^ nat (- e) else x * 10 ^ nat e)"

definition float_of_string :: "string \<Rightarrow> float_parse" where
  "float_of_string s =
     (let t = rev (dropWhile is_float_space (rev (dropWhile is_float_space s)))
      in case signed t of
           (neg, body) \<Rightarrow>
             if lower body \<in> set [''inf'', ''infinity'', ''nan''] then NotFinite
             else
               (case digitpart body of
                  (ip, r1) \<Rightarrow>
                    (case (if r1 \<noteq> [] \<and> hd r1 = CHR ''.'' then digitpart (tl r1) else ([], r1)) of
                       (fp, r2) \<Rightarrow>
                         (case exponent r2 of
                            None \<Rightarrow> Malformed
                          | Some e \<Rightarrow>
                              if ip = [] \<and> fp = [] then Malformed
                              else Parsed
                                (scale ((if neg then - 1 else 1)
                                          * (real (nat_of_digits ip)
                                             + real (nat_of_digits fp) / 10 ^ length fp)) e)))))"

section \<open>Record normalizer (data_processor.py)\<close>

subsection \<open>clean_data\<close>

definition clean_key :: "string \<Rightarrow> string" where
  "clean_key key = replace_char (CHR '' '') (CHR ''_'') (lower (strip key))"

text \<open>
  The value of one cell. \<open>pd.isna\<close> holds of NaN and of \<open>None\<close>. A string that passes
  the digit test goes to \<open>float\<close>, outside any \<open>try\<close>: where \<open>float\<close> rejects the string
  (a superscript digit passes \<open>isdigit\<close>), the \<open>ValueError\<close> leaves \<open>clean_data\<close>.
\<close>

fun clean_value :: "rawval \<Rightarrow> exn + pyval" where
  "clean_value NaN = Inr VNone"
| "clean_value (Val VNone) = Inr VNone"
| "clean_value (Val (VStr s)) =
     (if digit_like s then
        (case float_of_string s of
           Parsed r \<Rightarrow> Inr (VFloat r)
         | NotFinite \<Rightarrow> Inl ValueError
         | Malformed \<Rightarrow> Inl ValueError)
      else Inr (VStr s))"
| "clean_value (Val v) = Inr v"

text \<open>The loop over \<open>item.items()\<close>, with the dictionary built so far.\<close>

fun clean_pairs :: "(string \<times> rawval) list \<Rightarrow> (string \<times> pyval) list \<Rightarrow> exn + (string \<times> pyval) list" where
  "clean_pairs [] clean_item = Inr clean_item"
| "clean_pairs ((key, value) # rest) clean_item =
     (case clean_value value of
        Inl e \<Rightarrow> Inl e
      | Inr v \<Rightarrow> clean_pairs rest (AList.update (clean_key key) v clean_item))"

text \<open>The loop over the records.\<close>

fun clean_records :: "(string \<times> rawval) list list \<Rightarrow> exn + (string \<times> pyval) list list" where
  "clean_records [] = Inr []"
| "clean_records (item # rest) =
     (case clean_pairs item [] of
        Inl e \<Rightarrow> Inl e
      | Inr clean_item \<Rightarrow>
          (case clean_records rest of
             Inl e \<Rightarrow> Inl e
           | Inr cleaned_data \<Rightarrow> Inr (clean_item # cleaned_data)))"

fun clean_data :: "rawval pydata \<Rightarrow> exn + pyval pydata" where
  "clean_data NotList = Inr NotList"
| "clean_data (Records data) =
     (case clean_records data of Inl e \<Rightarrow> Inl e | Inr cleaned_data \<Rightarrow> Inr (Records cleaned_data))"

text \<open>Cleaned records read again as raw input (no NaN is left in them).\<close>

fun as_raw :: "pyval pydata \<Rightarrow> rawval pydata" where
  "as_raw NotList = NotList"
| "as_raw (Records data) = Records (map (map (\<lambda>(k, v). (k, Val v))) data)"

subsection \<open>detect_financial_structure\<close>

definition financial_fields :: "(string \<times> string list) list" where
  "financial_fields =
     [(''revenue'', [''revenue'', ''sales'', ''income'', ''earnings'', ''amt'', ''amount'', ''total'']),
      (''expenses'', [''expenses'', ''costs'', ''expenditure'', ''expense'']),
      (''profit'', [''profit'', ''net_income'', ''net_profit'', ''gross_profit'']),
      (''date'', [''date'', ''period'', ''month'', ''year'', ''quarter'']),
      (''category'', [''category'', ''department'', ''division'', ''segment'', ''product_line'', ''product''])]"

text \<open>
  One round of the outer loop: the first key of the sample that matches claims the field
  type (\<open>field_mapping[key] = field_type; break\<close>). The mapping is keyed by the original
  key, so a key claimed twice keeps one entry, with the later type.
\<close>

definition claim_field :: "string list \<Rightarrow> string \<times> string list \<Rightarrow> (string \<times> string) list \<Rightarrow> (string \<times> string) list" where
  "claim_field keys ft field_mapping =
     (case find (name_matches (snd ft)) keys of
        None \<Rightarrow> field_mapping
      | Some key \<Rightarrow> AList.update key (fst ft) field_mapping)"

definition detect_mapping :: "(string \<times> 'v) list \<Rightarrow> (string \<times> string) list" where
  "detect_mapping sample = fold (claim_field (map fst sample)) financial_fields []"

definition normalize_item :: "(string \<times> string) list \<Rightarrow> (string \<times> 'v) list \<Rightarrow> (string \<times> 'v) list" where
  "normalize_item field_mapping item =
     (let mapped = fold (\<lambda>(orig_key, normalized_key) acc.
                      case map_of item orig_key of
                        Some v \<Rightarrow> AList.update normalized_key v acc
                      | None \<Rightarrow> acc) field_mapping []
      in fold (\<lambda>(key, value) acc.
                 if map_of field_mapping key = None then AList.update key value acc else acc)
           item mapped)"

fun detect_financial_structure :: "'v pydata \<Rightarrow> 'v pydata" where
  "detect_financial_structure NotList = NotList"
| "detect_financial_structure (Records []) = Records []"
| "detect_financial_structure (Records (sample # rest)) =
     (let field_mapping = detect_mapping sample
      in if length field_mapping < 2 then Records (sample # rest)
         else Records (map (normalize_item field_mapping) (sample # rest)))"

text \<open>The canonical targets for which some key of the sample matches.\<close>

definition matched_targets :: "(string \<times> 'v) list \<Rightarrow> (string \<times> string list) list" where
  "matched_targets sample =
     filter (\<lambda>ft. list_ex (name_matches (snd ft)) (map fst sample)) financial_fields"

text \<open>
  The field names of the sample that are claimed: each is the first match of some target.
\<close>

definition claimed_names :: "(string \<times> 'v) list \<Rightarrow> string set" where
  "claimed_names sample =
     {key. \<exists>ft \<in> set financial_fields. find (name_matches (snd ft)) (map fst sample) = Some key}"

text \<open>
  The canonical key that a field name receives: that of the last target, in declaration
  order, of which the name is the first match.
\<close>

definition canonical_key :: "(string \<times> 'v) list \<Rightarrow> string \<Rightarrow> string option" where
  "canonical_key sample key =
     (case find (\<lambda>ft. find (name_matches (snd ft)) (map fst sample) = Some key)
             (rev financial_fields) of
        Some ft \<Rightarrow> Some (fst ft)
      | None \<Rightarrow> None)"

section \<open>Field classifier and insight engine (nlp_analyzer.py)\<close>

subsection \<open>Python operations used by the analyzer\<close>

text \<open>
  \<open>isinstance(v, (int, float)) or (isinstance(v, str) and v.replace('.', '', 1).isdigit())\<close>
\<close>

fun is_numeric_value :: "pyval \<Rightarrow> bool" where
  "is_numeric_value (VInt i) = True"
| "is_numeric_value (VFloat r) = True"
| "is_numeric_value (VStr s) = digit_like s"
| "is_numeric_value VNone = False"

text \<open>The truth value of an object in a condition.\<close>

fun truthy :: "pyval \<Rightarrow> bool" where
  "truthy VNone = False"
| "truthy (VInt i) = (i \<noteq> 0)"
| "truthy (VFloat r) = (r \<noteq> 0)"
| "truthy (VStr s) = (s \<noteq> [])"

text \<open>
  \<open>float(v)\<close>. The words \<open>inf\<close>, \<open>infinity\<close> and \<open>nan\<close> have no value among
  the real numbers; a cell that holds one is taken here like a malformed one.
\<close>

fun py_float :: "pyval \<Rightarrow> exn + real" where
  "py_float VNone = Inl TypeError"
| "py_float (VInt i) = Inr (of_int i)"
| "py_float (VFloat r) = Inr r"
| "py_float (VStr s) =
     (case float_of_string s of
        Parsed r \<Rightarrow> Inr r
      | NotFinite \<Rightarrow> Inl ValueError
      | Malformed \<Rightarrow> Inl ValueError)"

text \<open>A list comprehension of \<open>float(...)\<close>: the first failure raises.\<close>

fun float_all :: "pyval list \<Rightarrow> exn + real list" where
  "float_all [] = Inr []"
| "float_all (v # vs) =
     (case py_float v of
        Inl e \<Rightarrow> Inl e
      | Inr x \<Rightarrow> (case float_all vs of Inl e \<Rightarrow> Inl e | Inr xs \<Rightarrow> Inr (x # xs)))"

definition digit_char :: "nat \<Rightarrow> char" where
  "digit_char n = ''0123456789'' ! n"

fun show_nat :: "nat \<Rightarrow> string" where
  "show_nat n = (if n < 10 then [digit_char n] else show_nat (n div 10) @ [digit_char (n mod 10)])"

definition show_int :: "int \<Rightarrow> string" where
  "show_int i = (if i < 0 then ''-'' @ show_nat (nat (- i)) else show_nat (nat i))"

definition round_half_even :: "real \<Rightarrow> int" where
  "round_half_even x =
     (let f = \<lfloor>x\<rfloor>; d = x - of_int f
      in if d < 1 / 2 then f else if 1 / 2 < d then f + 1 else if even f then f else f + 1)"

text \<open>
  The format specifications \<open>{x:.1f}\<close> and \<open>{x:.2f}\<close>: \<open>fmt d x\<close> is \<open>x\<close> with
  \<open>d \<ge> 1\<close> decimals, rounded half to even, with a minus sign for a negative \<open>x\<close>.
\<close>

definition fmt :: "nat \<Rightarrow> real \<Rightarrow> string" where
  "fmt d x =
     (let digits = show_nat (nat (round_half_even (\<bar>x\<bar> * 10 ^ d)));
          padded = replicate (Suc d - length digits) (CHR ''0'') @ digits;
          k = length padded - d
      in (if x < 0 then ''-'' else []) @ take k padded @ ''.'' @ drop k padded)"

text \<open>
  \<open>str(v)\<close>. The text of a float is the shortest decimal that reads back as the same
  IEEE double; it is not determined by the real number alone, so it is the parameter
  \<open>float_repr\<close> of everything that prints a float with \<open>str\<close>.
\<close>

fun py_str :: "(real \<Rightarrow> string) \<Rightarrow> pyval \<Rightarrow> string" where
  "py_str float_repr VNone = ''None''"
| "py_str float_repr (VInt i) = show_int i"
| "py_str float_repr (VFloat r) = float_repr r"
| "py_str float_repr (VStr s) = s"

text \<open>\<open>field.replace('_', ' ')\<close>\<close>

definition display :: "string \<Rightarrow> string" where
  "display field = replace_char (CHR ''_'') (CHR '' '') field"

definition quoted :: "string \<Rightarrow> string" where
  "quoted s = [CHR 0x27] @ s @ [CHR 0x27]"

definition mean :: "real list \<Rightarrow> real" where
  "mean xs = sum_list xs / real (length xs)"

text \<open>\<open>statistics.stdev\<close>: the square root of the sample variance.\<close>

definition stdev :: "real list \<Rightarrow> real" where
  "stdev xs = sqrt (sum_list (map (\<lambda>x. (x - mean xs)\<^sup>2) xs) / real (length xs - 1))"

definition maximum :: "real list \<Rightarrow> real" where
  "maximum xs = fold max (tl xs) (hd xs)"

definition minimum :: "real list \<Rightarrow> real" where
  "minimum xs = fold min (tl xs) (hd xs)"

text \<open>\<open>((b - a) / a) * 100 if a > 0 else 0\<close>, the percent change used by every generator.\<close>

definition percent_change :: "real \<Rightarrow> real \<Rightarrow> real" where
  "percent_change a b = (if a > 0 then ((b - a) / a) * 100 else 0)"

text \<open>
  Sorting by a key that is a record value. Strings compare with strings and numbers with
  numbers; any other pair raises \<open>TypeError\<close>, and a sort of two or more elements
  always meets such a pair when the keys are not all strings or all numbers. Python's sort
  is stable, as \<open>sort_key\<close> is.
\<close>

fun is_str :: "pyval \<Rightarrow> bool" where
  "is_str (VStr s) = True"
| "is_str v = False"

fun is_num :: "pyval \<Rightarrow> bool" where
  "is_num (VInt i) = True"
| "is_num (VFloat r) = True"
| "is_num v = False"

fun str_of :: "pyval \<Rightarrow> string" where
  "str_of (VStr s) = s"
| "str_of v = []"

fun num_of :: "pyval \<Rightarrow> real" where
  "num_of (VInt i) = of_int i"
| "num_of (VFloat r) = r"
| "num_of v = 0"

definition sort_by_key :: "('a \<Rightarrow> pyval) \<Rightarrow> 'a list \<Rightarrow> exn + 'a list" where
  "sort_by_key key xs =
     (if length xs \<le> 1 then Inr xs
      else if list_all (\<lambda>x. is_str (key x)) xs then Inr (sort_key (\<lambda>x. str_of (key x)) xs)
      else if list_all (\<lambda>x. is_num (key x)) xs then Inr (sort_key (\<lambda>x. num_of (key x)) xs)
      else Inl TypeError)"

text \<open>\<open>sorted(items, key=lambda x: x[1], reverse=True)\<close>: stable, descending.\<close>

definition sorted_desc :: "('k \<times> real) list \<Rightarrow> ('k \<times> real) list" where
  "sorted_desc xs = rev (sort_key snd (rev xs))"

text \<open>
  A dictionary key made of a record value: equal numbers are the same key whether they
  are integers or floats, so numeric keys are stored as floats.
\<close>

fun dict_key :: "pyval \<Rightarrow> pyval" where
  "dict_key (VInt i) = VFloat (of_int i)"
| "dict_key v = v"

text \<open>\<open>if k not in d: d[k] = []\<close> followed by \<open>d[k].append(v)\<close>.\<close>

definition group_append :: "'k \<Rightarrow> 'v \<Rightarrow> ('k \<times> 'v list) list \<Rightarrow> ('k \<times> 'v list) list" where
  "group_append k v d =
     (case map_of d k of
        None \<Rightarrow> d @ [(k, [v])]
      | Some vs \<Rightarrow> AList.update k (vs @ [v]) d)"

subsection \<open>Field classification\<close>

definition numeric_count :: "string \<Rightarrow> (string \<times> pyval) list list \<Rightarrow> nat" where
  "numeric_count field data =
     length (filter (\<lambda>item. case map_of item field of
                               Some v \<Rightarrow> is_numeric_value v
                             | None \<Rightarrow> False) data)"

fun identify_numeric_fields :: "(string \<times> pyval) list list \<Rightarrow> string list" where
  "identify_numeric_fields [] = []"
| "identify_numeric_fields (sample # rest) =
     (let candidates = map fst (filter (\<lambda>(key, value). is_numeric_value value) sample)
      in filter (\<lambda>field. real (numeric_count field (sample # rest))
                             / real (length (sample # rest)) \<ge> 0.8) candidates)"

definition date_indicators :: "string list" where
  "date_indicators = [''date'', ''period'', ''month'', ''year'', ''quarter'', ''day'', ''week'']"

fun identify_date_fields :: "(string \<times> pyval) list list \<Rightarrow> string list" where
  "identify_date_fields [] = []"
| "identify_date_fields (sample # rest) = filter (name_matches date_indicators) (map fst sample)"

definition category_indicators :: "string list" where
  "category_indicators =
     [''category'', ''type'', ''department'', ''division'', ''segment'', ''product'', ''region'',
      ''country'']"

fun identify_category_fields :: "(string \<times> pyval) list list \<Rightarrow> string list" where
  "identify_category_fields [] = []"
| "identify_category_fields (sample # rest) =
     filter (name_matches category_indicators) (map fst sample)"

subsection \<open>Statistical insights\<close>

text \<open>The values \<open>item[field]\<close> of the items with \<open>field in item and item[field] is not None\<close>.\<close>

definition field_values :: "string \<Rightarrow> (string \<times> pyval) list list \<Rightarrow> pyval list" where
  "field_values field data =
     List.map_filter (\<lambda>item. case map_of item field of
                                Some v \<Rightarrow> (if v = VNone then None else Some v)
                              | None \<Rightarrow> None) data"

text \<open>
  The body of the \<open>try\<close> block for one field. On real numbers none of its operations
  can fail (every division has a positive divisor), so it is a plain function.
\<close>

definition statistics_of :: "string \<Rightarrow> real list \<Rightarrow> string list" where
  "statistics_of field values =
     (let total = sum_list values;
          average = total / real (length values);
          hi = maximum values;
          lo = minimum values
      in if length values \<ge> 3 then
           [''The total '' @ display field @ '' is '' @ fmt 2 total @ ''.'',
            ''The average '' @ display field @ '' is '' @ fmt 2 average @ ''.'',
            ''The maximum '' @ display field @ '' recorded is '' @ fmt 2 hi @ ''.'',
            ''The minimum '' @ display field @ '' recorded is '' @ fmt 2 lo @ ''.'']
           @ (if name_matches [''revenue'', ''profit'', ''sales'', ''income''] field then
                [''There is a '' @ fmt 1 (percent_change lo hi)
                 @ ''% difference between the highest and lowest '' @ display field @ ''.'']
              else [])
           @ (if length values \<ge> 5 then
                (let std_dev = stdev values;
                     variability = (if average > 0 then (std_dev / average) * 100 else 0)
                 in if variability > 30 then
                      [''There is high variability in '' @ display field
                       @ '' (coefficient of variation: '' @ fmt 1 variability @ ''%).'']
                    else if variability < 10 then
                      [''There is low variability in '' @ display field
                       @ '' (coefficient of variation: '' @ fmt 1 variability @ ''%).'']
                    else [])
              else [])
         else [])"

text \<open>
  The loop over the numeric fields. The list comprehension that coerces the values stands
  before the \<open>try\<close>, so a value that \<open>float\<close> rejects raises out of the whole function.
\<close>

fun generate_statistical_insights ::
  "(string \<times> pyval) list list \<Rightarrow> string list \<Rightarrow> exn + string list" where
  "generate_statistical_insights data [] = Inr []"
| "generate_statistical_insights data (field # fields) =
     (case float_all (field_values field data) of
        Inl e \<Rightarrow> Inl e
      | Inr values \<Rightarrow>
          (case generate_statistical_insights data fields of
             Inl e \<Rightarrow> Inl e
           | Inr rest \<Rightarrow> Inr ((if values = [] then [] else statistics_of field values) @ rest)))"

subsection \<open>Trend insights\<close>

fun collect_points ::
  "string \<Rightarrow> string \<Rightarrow> (string \<times> pyval) list list \<Rightarrow> exn + (pyval \<times> real) list" where
  "collect_points date_field numeric_field [] = Inr []"
| "collect_points date_field numeric_field (item # rest) =
     (case (map_of item date_field, map_of item numeric_field) of
        (Some d, Some v) \<Rightarrow>
          if truthy d \<and> v \<noteq> VNone then
            (case py_float v of
               Inl e \<Rightarrow> Inl e
             | Inr x \<Rightarrow>
                 (case collect_points date_field numeric_field rest of
                    Inl e \<Rightarrow> Inl e
                  | Inr points \<Rightarrow> Inr ((d, x) # points)))
          else collect_points date_field numeric_field rest
      | _ \<Rightarrow> collect_points date_field numeric_field rest)"

definition segment_averages :: "(pyval \<times> real) list \<Rightarrow> real list" where
  "segment_averages data_points =
     (let n = length data_points;
          segments = min 4 (n div 2);
          segment_size = n div segments
      in map (\<lambda>i. let start_idx = i * segment_size;
                      end_idx = (if i < segments - 1 then start_idx + segment_size else n);
                      segment_values = map snd (take (end_idx - start_idx) (drop start_idx data_points))
                  in sum_list segment_values / real (length segment_values))
           [0..<segments])"

text \<open>The sentences for one numeric field, from its data points sorted by date.\<close>

definition trend_of :: "string \<Rightarrow> (pyval \<times> real) list \<Rightarrow> string list" where
  "trend_of numeric_field data_points =
     (let first_value = snd (hd data_points);
          last_value = snd (last data_points);
          change = percent_change first_value last_value
      in [if change > 10 then
            ''The '' @ display numeric_field @ '' shows an increasing trend of '' @ fmt 1 change
            @ ''% over the analyzed period.''
          else if change < - 10 then
            ''The '' @ display numeric_field @ '' shows a decreasing trend of '' @ fmt 1 \<bar>change\<bar>
            @ ''% over the analyzed period.''
          else
            ''The '' @ display numeric_field
            @ '' remains relatively stable over the analyzed period (change: '' @ fmt 1 change
            @ ''%).'']
         @ (if length data_points \<ge> 6 then
              (let averages = segment_averages data_points;
                   segment_change = percent_change (hd averages) (last averages)
               in if segment_change > 15 then
                    [''The '' @ display numeric_field
                     @ '' shows a strong positive trend in the most recent period (change: ''
                     @ fmt 1 segment_change @ ''%).'']
                  else if segment_change < - 15 then
                    [''The '' @ display numeric_field
                     @ '' shows a concerning downward trend in the most recent period (change: ''
                     @ fmt 1 \<bar>segment_change\<bar> @ ''%).'']
                  else [])
            else []))"

text \<open>The \<open>try\<close> block for one numeric field; everything that can raise comes before the
  first \<open>append\<close>.\<close>

definition trend_for_field ::
  "string \<Rightarrow> (string \<times> pyval) list list \<Rightarrow> string \<Rightarrow> exn + string list" where
  "trend_for_field date_field data numeric_field =
     (case collect_points date_field numeric_field data of
        Inl e \<Rightarrow> Inl e
      | Inr data_points \<Rightarrow>
          if length data_points < 3 then Inr []
          else (case sort_by_key fst data_points of
                  Inl e \<Rightarrow> Inl e
                | Inr sorted_points \<Rightarrow> Inr (trend_of numeric_field sorted_points)))"

text \<open>\<open>except Exception\<close> around one field: the error is logged, the field adds nothing.\<close>

definition swallow :: "exn + string list \<Rightarrow> string list" where
  "swallow r = (case r of Inl e \<Rightarrow> [] | Inr insights \<Rightarrow> insights)"

definition generate_trend_insights ::
  "(string \<times> pyval) list list \<Rightarrow> string list \<Rightarrow> string list \<Rightarrow> string list" where
  "generate_trend_insights data date_fields numeric_fields =
     (if date_fields = [] \<or> numeric_fields = [] then []
      else concat (map (\<lambda>numeric_field.
                          swallow (trend_for_field (hd date_fields) data numeric_field))
                     numeric_fields))"

subsection \<open>Category insights\<close>

text \<open>The grouping loop: \<open>category_data[str(item[category_field])].append(float(...))\<close>.\<close>

fun collect_categories ::
  "(real \<Rightarrow> string) \<Rightarrow> string \<Rightarrow> string \<Rightarrow> (string \<times> pyval) list list
     \<Rightarrow> (string \<times> real list) list \<Rightarrow> exn + (string \<times> real list) list" where
  "collect_categories float_repr category_field numeric_field [] category_data = Inr category_data"
| "collect_categories float_repr category_field numeric_field (item # rest) category_data =
     (case (map_of item category_field, map_of item numeric_field) of
        (Some c, Some v) \<Rightarrow>
          if c \<noteq> VNone \<and> v \<noteq> VNone then
            (case py_float v of
               Inl e \<Rightarrow> Inl e
             | Inr x \<Rightarrow>
                 collect_categories float_repr category_field numeric_field rest
                   (group_append (py_str float_repr c) x category_data))
          else collect_categories float_repr category_field numeric_field rest category_data
      | _ \<Rightarrow> collect_categories float_repr category_field numeric_field rest category_data)"

text \<open>The sentences for one numeric field, from the grouped values (at least two groups).\<close>

definition category_of :: "string \<Rightarrow> (string \<times> real list) list \<Rightarrow> string list" where
  "category_of numeric_field category_data =
     (let category_averages = map (\<lambda>(category, values). (category, mean values)) category_data;
          sorted_categories = sorted_desc category_averages;
          top = hd sorted_categories;
          bottom = last sorted_categories;
          performance_gap = percent_change (snd bottom) (snd top);
          total = sum_list (map snd sorted_categories)
      in [''The best performing category in terms of '' @ display numeric_field @ '' is ''
            @ quoted (fst top) @ '' with an average of '' @ fmt 2 (snd top) @ ''.'',
          ''The lowest performing category in terms of '' @ display numeric_field @ '' is ''
            @ quoted (fst bottom) @ '' with an average of '' @ fmt 2 (snd bottom) @ ''.'']
         @ (if performance_gap > 50 then
              [''There is a significant performance gap of '' @ fmt 1 performance_gap
               @ ''% between the top and bottom categories for '' @ display numeric_field @ ''.'']
            else [])
         @ (if length sorted_categories \<ge> 3 then
              (case find (\<lambda>(category, avg). (if total > 0 then (avg / total) * 100 else 0) > 40)
                      sorted_categories of
                 Some (category, avg) \<Rightarrow>
                   [''The '' @ quoted category @ '' category dominates with ''
                    @ fmt 1 ((avg / total) * 100) @ ''% of the total '' @ display numeric_field
                    @ ''.'']
               | None \<Rightarrow> [])
              @ (if length sorted_categories \<ge> 4 then
                   (let top_two_contribution =
                          (if total > 0
                           then ((snd (sorted_categories ! 0) + snd (sorted_categories ! 1)) / total) * 100
                           else 0)
                    in if top_two_contribution > 70 then
                         [''Top two categories represent '' @ fmt 1 top_two_contribution
                          @ ''% of the total '' @ display numeric_field
                          @ '', indicating high concentration.'']
                       else [])
                 else [])
            else []))"

definition category_for_field ::
  "(real \<Rightarrow> string) \<Rightarrow> string \<Rightarrow> (string \<times> pyval) list list \<Rightarrow> string \<Rightarrow> exn + string list" where
  "category_for_field float_repr category_field data numeric_field =
     (case collect_categories float_repr category_field numeric_field data [] of
        Inl e \<Rightarrow> Inl e
      | Inr category_data \<Rightarrow>
          if length category_data < 2 then Inr []
          else Inr (category_of numeric_field category_data))"

definition generate_category_insights ::
  "(real \<Rightarrow> string) \<Rightarrow> (string \<times> pyval) list list \<Rightarrow> string list \<Rightarrow> string list \<Rightarrow> string list" where
  "generate_category_insights float_repr data category_fields numeric_fields =
     (if category_fields = [] \<or> numeric_fields = [] then []
      else concat (map (\<lambda>numeric_field.
                          swallow (category_for_field float_repr (hd category_fields) data numeric_field))
                     numeric_fields))"

subsection \<open>Complex insights\<close>

text \<open>\<open>organized_data[category][date].append(value)\<close>, both levels created on demand.\<close>

definition nest_append ::
  "string \<Rightarrow> pyval \<Rightarrow> real \<Rightarrow> (string \<times> (pyval \<times> real list) list) list
     \<Rightarrow> (string \<times> (pyval \<times> real list) list) list" where
  "nest_append category date v organized =
     (case map_of organized category of
        None \<Rightarrow> organized @ [(category, [(dict_key date, [v])])]
      | Some date_data \<Rightarrow>
          AList.update category (group_append (dict_key date) v date_data) organized)"

fun collect_organized ::
  "(real \<Rightarrow> string) \<Rightarrow> string \<Rightarrow> string \<Rightarrow> string \<Rightarrow> (string \<times> pyval) list list
     \<Rightarrow> (string \<times> (pyval \<times> real list) list) list
     \<Rightarrow> exn + (string \<times> (pyval \<times> real list) list) list" where
  "collect_organized float_repr date_field category_field numeric_field [] organized = Inr organized"
| "collect_organized float_repr date_field category_field numeric_field (item # rest) organized =
     (case (map_of item date_field, map_of item category_field, map_of item numeric_field) of
        (Some d, Some c, Some v) \<Rightarrow>
          if d \<noteq> VNone \<and> c \<noteq> VNone \<and> v \<noteq> VNone then
            (case py_float v of
               Inl e \<Rightarrow> Inl e
             | Inr x \<Rightarrow>
                 collect_organized float_repr date_field category_field numeric_field rest
                   (nest_append (py_str float_repr c) d x organized))
          else collect_organized float_repr date_field category_field numeric_field rest organized
      | _ \<Rightarrow> collect_organized float_repr date_field category_field numeric_field rest organized)"

text \<open>The growth rate of every category that has at least two dates; \<open>sorted\<close> of the
  dates may raise.\<close>

fun growth_rates ::
  "(string \<times> (pyval \<times> real list) list) list \<Rightarrow> exn + (string \<times> real) list" where
  "growth_rates [] = Inr []"
| "growth_rates ((category, date_data) # rest) =
     (if length date_data < 2 then growth_rates rest
      else (case sort_by_key id (map fst date_data) of
              Inl e \<Rightarrow> Inl e
            | Inr sorted_dates \<Rightarrow>
                (case growth_rates rest of
                   Inl e \<Rightarrow> Inl e
                 | Inr rates \<Rightarrow>
                     (let earliest = the (map_of date_data (hd sorted_dates));
                          latest = the (map_of date_data (last sorted_dates))
                      in Inr ((category, percent_change (mean earliest) (mean latest)) # rates)))))"

definition growth_of :: "string \<Rightarrow> (string \<times> real) list \<Rightarrow> string list" where
  "growth_of numeric_field rates =
     (let sorted_growth = sorted_desc rates;
          fastest_growing = hd sorted_growth;
          slowest_growing = last sorted_growth;
          growth_diff = snd fastest_growing - snd slowest_growing
      in [''The fastest growing category for '' @ display numeric_field @ '' is ''
            @ quoted (fst fastest_growing) @ '' with a growth rate of ''
            @ fmt 1 (snd fastest_growing) @ ''%.'',
          if snd slowest_growing < 0 then
            ''The category '' @ quoted (fst slowest_growing) @ '' is showing a decline of ''
            @ fmt 1 \<bar>snd slowest_growing\<bar> @ ''% in '' @ display numeric_field @ ''.''
          else
            ''The slowest growing category for '' @ display numeric_field @ '' is ''
            @ quoted (fst slowest_growing) @ '' with a growth rate of ''
            @ fmt 1 (snd slowest_growing) @ ''%.'']
         @ (if growth_diff > 50 then
              [''There is a significant growth gap of '' @ fmt 1 growth_diff
               @ ''% between the best and worst performing categories for ''
               @ display numeric_field @ ''.'']
            else []))"

definition complex_for_field ::
  "(real \<Rightarrow> string) \<Rightarrow> string \<Rightarrow> string \<Rightarrow> (string \<times> pyval) list list \<Rightarrow> string
     \<Rightarrow> exn + string list" where
  "complex_for_field float_repr date_field category_field data numeric_field =
     (case collect_organized float_repr date_field category_field numeric_field data [] of
        Inl e \<Rightarrow> Inl e
      | Inr organized_data \<Rightarrow>
          if length organized_data < 2 then Inr []
          else (case growth_rates organized_data of
                  Inl e \<Rightarrow> Inl e
                | Inr rates \<Rightarrow>
                    if length rates < 2 then Inr [] else Inr (growth_of numeric_field rates)))"

definition generate_complex_insights ::
  "(real \<Rightarrow> string) \<Rightarrow> (string \<times> pyval) list list \<Rightarrow> string list \<Rightarrow> string list \<Rightarrow> string list
     \<Rightarrow> string list" where
  "generate_complex_insights float_repr data date_fields category_fields numeric_fields =
     (if date_fields = [] \<or> category_fields = [] \<or> numeric_fields = [] then []
      else concat (map (\<lambda>numeric_field.
                          swallow (complex_for_field float_repr (hd date_fields)
                                     (hd category_fields) data numeric_field))
                     numeric_fields))"

subsection \<open>analyze_data\<close>

definition generate_recommendations :: "string list" where
  "generate_recommendations =
     [''Consider conducting a detailed analysis of your best performing segments to identify success factors that can be applied elsewhere.'',
      ''Regular financial monitoring and reporting can help identify trends earlier and improve decision-making.'',
      ''Diversify revenue streams to reduce dependency on any single source and increase business resilience.'',
      ''Implement forecasting models to better predict future performance and prepare accordingly.'',
      ''Review cost structures periodically to identify opportunities for optimization and improved margins.'']"

text \<open>
  The insights of the four generators, concatenated: the part of the \<open>try\<close> block between
  the guard and the deduplication. Only the statistical generator can raise.
\<close>

definition gather_insights ::
  "(real \<Rightarrow> string) \<Rightarrow> (string \<times> pyval) list list \<Rightarrow> exn + string list" where
  "gather_insights float_repr data =
     (let numeric_fields = identify_numeric_fields data;
          date_fields = identify_date_fields data;
          category_fields = identify_category_fields data
      in case generate_statistical_insights data numeric_fields of
           Inl e \<Rightarrow> Inl e
         | Inr statistical_insights \<Rightarrow>
             Inr (statistical_insights
                  @ (if date_fields \<noteq> []
                     then generate_trend_insights data date_fields numeric_fields else [])
                  @ (if category_fields \<noteq> []
                     then generate_category_insights float_repr data category_fields numeric_fields
                     else [])
                  @ (if date_fields \<noteq> [] \<and> category_fields \<noteq> []
                     then generate_complex_insights float_repr data date_fields category_fields
                            numeric_fields
                     else [])))"

text \<open>
  \<open>list(set(insights))\<close> keeps each string once, in an order that Python does not fix;
  \<open>remdups\<close> stands for it, and nothing below depends on the order it picks.
\<close>

definition analyze_body :: "(real \<Rightarrow> string) \<Rightarrow> pyval pydata \<Rightarrow> exn + string list" where
  "analyze_body float_repr data =
     (case data of
        NotList \<Rightarrow> Inr [''Insufficient data for analysis.'']
      | Records [] \<Rightarrow> Inr [''Insufficient data for analysis.'']
      | Records (sample # rest) \<Rightarrow>
          (case gather_insights float_repr (sample # rest) of
             Inl e \<Rightarrow> Inl e
           | Inr insights \<Rightarrow>
               (let unique_insights = remdups insights
                in if length unique_insights < 3
                   then Inr (unique_insights @ generate_recommendations)
                   else Inr unique_insights)))"

text \<open>The whole function: the \<open>try\<close> block and its \<open>except Exception\<close> handler.\<close>

definition analyze_data :: "(real \<Rightarrow> string) \<Rightarrow> pyval pydata \<Rightarrow> exn + string list" where
  "analyze_data float_repr data =
     (case analyze_body float_repr data of
        Inl e \<Rightarrow> Inr [''Error analyzing data. Please check the input format.'']
      | Inr result \<Rightarrow> Inr result)"

section \<open>Visualization engine (visualizer.py)\<close>

subsection \<open>Columns and dimension candidates\<close>

text \<open>
  \<open>pd.DataFrame(data).columns\<close> for a list of dictionaries: the keys of all records, each
  once, in the order of first appearance.
\<close>

definition df_columns :: "(string \<times> 'v) list list \<Rightarrow> string list" where
  "df_columns data = rev (remdups (rev (concat (map (map fst) data))))"

text \<open>The terms of \<open>create_time_series_chart\<close>.\<close>

definition date_terms :: "string list" where
  "date_terms = [''date'', ''month'', ''year'', ''quarter'', ''period'']"

text \<open>The terms of \<open>create_category_comparison_chart\<close> and \<open>create_composition_chart\<close>.\<close>

definition category_terms :: "string list" where
  "category_terms = [''category'', ''type'', ''segment'', ''department'', ''division'', ''product'']"

text \<open>\<open>[col for col in df.columns if any(term in col.lower() for term in terms)]\<close>\<close>

definition date_columns :: "string list \<Rightarrow> string list" where
  "date_columns columns = filter (name_matches date_terms) columns"

definition category_columns :: "string list \<Rightarrow> string list" where
  "category_columns columns = filter (name_matches category_terms) columns"

subsection \<open>Data frames\<close>

text \<open>
  The cells of a pandas column: a missing value (\<open>None\<close>, \<open>NaN\<close> or \<open>NaT\<close>, which pandas
  treats alike when it groups and aggregates), a number, a string, or a timestamp of a
  column converted by \<open>pd.to_datetime\<close>. A column carries its dtype, of which the code
  asks only whether it is a number dtype.
\<close>

datatype cell = Missing | Numeric real | Text string | Timestamp int

datatype dtype = NumberDtype | DatetimeDtype | ObjectDtype

record frame =
  nrows :: nat
  cols :: "(string \<times> dtype \<times> cell list) list"

text \<open>
  What the code takes from pandas without fixing it itself: the type inference of the
  \<open>DataFrame\<close> constructor (whether the cells of a column get a number dtype),
  \<open>pd.to_datetime(column, errors='coerce')\<close> (the timestamps of the cells, \<open>None\<close> for
  \<open>NaT\<close>; or no result when it raises), and \<open>str\<close> of a group key that is no string.
\<close>

record pandas =
  number_dtype :: "cell list \<Rightarrow> bool"
  to_datetime :: "cell list \<Rightarrow> int option list option"
  str_of_cell :: "cell \<Rightarrow> string"

fun cell_of :: "pyval option \<Rightarrow> cell" where
  "cell_of None = Missing"
| "cell_of (Some VNone) = Missing"
| "cell_of (Some (VInt i)) = Numeric (of_int i)"
| "cell_of (Some (VFloat r)) = Numeric r"
| "cell_of (Some (VStr s)) = Text s"

text \<open>\<open>pd.DataFrame(data)\<close>: one row per record, a key absent from a record is missing.\<close>

definition data_frame :: "pandas \<Rightarrow> (string \<times> pyval) list list \<Rightarrow> frame" where
  "data_frame P data =
     \<lparr>nrows = length data,
      cols = map (\<lambda>c. let cells = map (\<lambda>item. cell_of (map_of item c)) data
                      in (c, if number_dtype P cells then NumberDtype else ObjectDtype, cells))
                 (df_columns data)\<rparr>"

text \<open>\<open>df.columns\<close>\<close>

definition columns :: "frame \<Rightarrow> string list" where
  "columns df = map fst (cols df)"

text \<open>\<open>df.select_dtypes(include=['number']).columns.tolist()\<close>\<close>

definition select_number :: "frame \<Rightarrow> string list" where
  "select_number df = map fst (filter (\<lambda>(c, t, cells). t = NumberDtype) (cols df))"

text \<open>\<open>df[c]\<close>\<close>

definition column :: "frame \<Rightarrow> string \<Rightarrow> cell list" where
  "column df c = (case map_of (cols df) c of Some (t, cells) \<Rightarrow> cells | None \<Rightarrow> [])"

text \<open>\<open>df[c] = cells\<close> for an existing column \<open>c\<close>.\<close>

definition assign :: "frame \<Rightarrow> string \<Rightarrow> dtype \<Rightarrow> cell list \<Rightarrow> frame" where
  "assign df c t cells =
     df\<lparr>cols := map (\<lambda>(c', old). if c' = c then (c, t, cells) else (c', old)) (cols df)\<rparr>"

fun numbers :: "cell list \<Rightarrow> real list" where
  "numbers [] = []"
| "numbers (Numeric x # cells) = x # numbers cells"
| "numbers (c # cells) = numbers cells"

fun texts :: "cell list \<Rightarrow> string list" where
  "texts [] = []"
| "texts (Text s # cells) = s # texts cells"
| "texts (c # cells) = texts cells"

fun timestamps :: "cell list \<Rightarrow> int list" where
  "timestamps [] = []"
| "timestamps (Timestamp t # cells) = t # timestamps cells"
| "timestamps (c # cells) = timestamps cells"

text \<open>
  The group keys of \<open>df.groupby(c)\<close>: the distinct values of the column, the missing one
  dropped, in sorted order (numbers before strings where a column mixes them).
\<close>

definition group_keys :: "cell list \<Rightarrow> cell list" where
  "group_keys cells =
     map Numeric (sort (remdups (numbers cells)))
     @ map Text (sort (remdups (texts cells)))
     @ map Timestamp (sort (remdups (timestamps cells)))"

text \<open>The cells of a value column in the rows of one group.\<close>

definition group_of :: "cell list \<Rightarrow> cell list \<Rightarrow> cell \<Rightarrow> cell list" where
  "group_of keys vals k = map snd (filter (\<lambda>(c, v). c = k) (zip keys vals))"

text \<open>\<open>sum\<close> and \<open>mean\<close> of a group skip missing cells; the mean of none is \<open>NaN\<close>.\<close>

definition nansum :: "cell list \<Rightarrow> real" where
  "nansum cells = sum_list (numbers cells)"

definition nanmean :: "cell list \<Rightarrow> real option" where
  "nanmean cells =
     (if numbers cells = [] then None
      else Some (sum_list (numbers cells) / real (length (numbers cells))))"

text \<open>\<open>df.groupby(by)[c].sum().reset_index()\<close>, as rows of key and sum.\<close>

definition groupby_sum :: "frame \<Rightarrow> string \<Rightarrow> string \<Rightarrow> (cell \<times> real) list" where
  "groupby_sum df by c =
     map (\<lambda>k. (k, nansum (group_of (column df by) (column df c) k))) (group_keys (column df by))"

subsection \<open>Chart specifications\<close>

text \<open>
  The \<open>data\<close> of a dataset is a list of values (\<open>None\<close> for \<open>NaN\<close>), or, in the scatter
  chart, the pair of coordinate lists.
\<close>

datatype series = Values "real option list" | Points "real option list" "real option list"

record chart =
  chart_type :: string
  title :: string
  labels :: "cell list"
  datasets :: "(string \<times> series) list"
  description :: string

text \<open>\<open>sep.join(xs)\<close>\<close>

fun join :: "string \<Rightarrow> string list \<Rightarrow> string" where
  "join sep [] = []"
| "join sep [x] = x"
| "join sep (x # y # ys) = x @ sep @ join sep (y # ys)"

fun time_cell :: "int option \<Rightarrow> cell" where
  "time_cell None = Missing"
| "time_cell (Some t) = Timestamp t"

fun label_str :: "pandas \<Rightarrow> cell \<Rightarrow> string" where
  "label_str P (Text s) = s"
| "label_str P c = str_of_cell P c"

fun number_of :: "cell \<Rightarrow> real option" where
  "number_of (Numeric x) = Some x"
| "number_of c = None"

subsection \<open>Time series chart\<close>

text \<open>
  The result is the chart, if any, and the frame as the call leaves it: the assignment
  \<open>df[date_col] = pd.to_datetime(...)\<close> changes the caller's frame, the sorted frame is
  local. A conversion that raises, or whose result does not fit the frame, leaves the
  column as it is (\<open>except: pass\<close>). Grouping by a column that is also one of the selected
  columns raises in \<open>reset_index\<close>, and the handler returns \<open>None\<close>.
\<close>

definition create_time_series_chart :: "pandas \<Rightarrow> frame \<Rightarrow> chart option \<times> frame" where
  "create_time_series_chart P df =
     (case date_columns (columns df) of
        [] \<Rightarrow> (None, df)
      | date_col # _ \<Rightarrow>
          (let numeric_cols = select_number df in
           if numeric_cols = [] then (None, df)
           else
             (let selected_numeric_cols = take 3 numeric_cols;
                  df' = (case to_datetime P (column df date_col) of
                           None \<Rightarrow> df
                         | Some ts \<Rightarrow>
                             if length ts = nrows df
                             then assign df date_col DatetimeDtype (map time_cell ts)
                             else df)
              in if date_col \<in> set selected_numeric_cols then (None, df')
                 else
                   (let keys = group_keys (column df' date_col);
                        date_labels = map (\<lambda>date. Text (label_str P date)) keys;
                        datasets = map (\<lambda>col. (col, Values (map (\<lambda>k. nanmean
                                      (group_of (column df' date_col) (column df' col) k)) keys)))
                                     selected_numeric_cols
                    in (Some \<lparr>chart_type = ''line'',
                              title = ''Time Series Analysis'',
                              labels = date_labels,
                              datasets = datasets,
                              description = ''This chart shows the trend of ''
                                @ join '', '' selected_numeric_cols @ '' over time.''\<rparr>,
                        df')))))"

subsection \<open>Category comparison chart\<close>

text \<open>
  \<open>sort_values(by=numeric_col, ascending=False)\<close> is modelled by the stable descending
  sort; pandas leaves the order of groups of equal sum to numpy.
\<close>

definition create_category_comparison_chart :: "frame \<Rightarrow> chart option" where
  "create_category_comparison_chart df =
     (case category_columns (columns df) of
        [] \<Rightarrow> None
      | category_col # _ \<Rightarrow>
          (case select_number df of
             [] \<Rightarrow> None
           | numeric_col # _ \<Rightarrow>
               if category_col = numeric_col then None
               else
                 (let grouped = sorted_desc (groupby_sum df category_col numeric_col);
                      grouped = (if length grouped > 10 then take 10 grouped else grouped)
                  in Some \<lparr>chart_type = ''bar'',
                           title = numeric_col @ '' by '' @ category_col,
                           labels = map fst grouped,
                           datasets = [(numeric_col, Values (map (\<lambda>row. Some (snd row)) grouped))],
                           description = ''This chart compares '' @ numeric_col
                             @ '' across different '' @ category_col @ '' categories.''\<rparr>)))"

subsection \<open>Distribution chart\<close>

text \<open>\<open>np.linspace(a, b, n + 1)\<close>\<close>

definition linspace :: "real \<Rightarrow> real \<Rightarrow> nat \<Rightarrow> real list" where
  "linspace a b n = map (\<lambda>i. a + real i * ((b - a) / real n)) [0..<n] @ [b]"

text \<open>
  The bin edges of \<open>pd.cut(column, bins=n)\<close> for a column with at least one number: the
  range in \<open>n\<close> equal parts, the lowest edge moved down by 0.1% of the range; a single
  value is widened by 0.1% of itself (by 0.001 if it is 0) on both sides.
\<close>

definition widen :: "real \<Rightarrow> real" where
  "widen x = (if x \<noteq> 0 then 0.001 * \<bar>x\<bar> else 0.001)"

definition cut_edges :: "real list \<Rightarrow> nat \<Rightarrow> real list" where
  "cut_edges xs n =
     (let mn = Min (set xs); mx = Max (set xs) in
      if mn = mx then linspace (mn - widen mn) (mx + widen mx) n
      else (case linspace mn mx n of
              [] \<Rightarrow> []
            | e # es \<Rightarrow> (e - (mx - mn) * 0.001) # es))"

text \<open>
  \<open>pd.cut(column, bins=edges, include_lowest=True).value_counts().sort_index()\<close>: the
  number of values in each interval, open on the left and closed on the right, the first
  one closed on both sides.
\<close>

definition cut_counts :: "real list \<Rightarrow> real list \<Rightarrow> nat list" where
  "cut_counts edges xs =
     map (\<lambda>i. length (filter (\<lambda>x. (edges ! i < x \<and> x \<le> edges ! (i + 1))
                                  \<or> (i = 0 \<and> x = edges ! 0)) xs))
         [0..<length edges - 1]"

text \<open>
  \<open>np.histogram(values, bins=edges)\<close>: intervals closed on the left and open on the
  right, the last one closed on both sides.
\<close>

definition histogram :: "real list \<Rightarrow> real list \<Rightarrow> nat list" where
  "histogram edges xs =
     map (\<lambda>i. length (filter (\<lambda>x. edges ! i \<le> x
                                  \<and> (x < edges ! (i + 1)
                                      \<or> (i + 2 = length edges \<and> x = edges ! (i + 1)))) xs))
         [0..<length edges - 1]"

text \<open>
  \<open>pd.cut\<close> raises on a column with no number at all; the handler then takes numpy's
  histogram, whose edges for no values divide the interval from 0 to 1.
\<close>

definition create_distribution_chart :: "frame \<Rightarrow> chart option" where
  "create_distribution_chart df =
     (case select_number df of
        numeric_col1 # numeric_col2 # _ \<Rightarrow>
          (let n_bins = (if nrows df > 10 then min 10 (nrows df div 5) else 5);
               xs1 = numbers (column df numeric_col1);
               xs2 = numbers (column df numeric_col2);
               bin_edges = (if xs1 = [] then linspace 0 1 n_bins else cut_edges xs1 n_bins);
               hist_counts1 = (if xs1 = [] then histogram bin_edges xs1 else cut_counts bin_edges xs1);
               hist_counts2 = (if xs1 = [] then histogram bin_edges xs2 else cut_counts bin_edges xs2);
               bin_labels = map (\<lambda>i. Text (fmt 1 (bin_edges ! i) @ ''-'' @ fmt 1 (bin_edges ! (i + 1))))
                              [0..<length bin_edges - 1]
           in Some \<lparr>chart_type = ''bar'',
                    title = ''Distribution Comparison'',
                    labels = bin_labels,
                    datasets = [(numeric_col1, Values (map (\<lambda>n. Some (real n)) hist_counts1)),
                                (numeric_col2, Values (map (\<lambda>n. Some (real n)) hist_counts2))],
                    description = ''This chart shows the distribution of '' @ numeric_col1
                      @ '' and '' @ numeric_col2 @ ''.''\<rparr>)
      | _ \<Rightarrow> None)"

subsection \<open>Composition chart\<close>

definition create_composition_chart :: "frame \<Rightarrow> chart option" where
  "create_composition_chart df =
     (case category_columns (columns df) of
        [] \<Rightarrow> None
      | category_col # _ \<Rightarrow>
          (case select_number df of
             [] \<Rightarrow> None
           | numeric_col # _ \<Rightarrow>
               if category_col = numeric_col then None
               else
                 (let grouped = sorted_desc (groupby_sum df category_col numeric_col);
                      grouped = (if length grouped > 8
                                 then (let top_grouped = take 7 grouped;
                                           other_value = sum_list (map snd (drop 7 grouped))
                                       in top_grouped @ [(Text ''Other'', other_value)])
                                 else grouped)
                  in Some \<lparr>chart_type = ''pie'',
                           title = ''Composition of '' @ numeric_col @ '' by '' @ category_col,
                           labels = map fst grouped,
                           datasets = [(numeric_col, Values (map (\<lambda>row. Some (snd row)) grouped))],
                           description = ''This chart shows the proportion of '' @ numeric_col
                             @ '' by different '' @ category_col @ '' categories.''\<rparr>)))"

subsection \<open>Correlation chart\<close>

definition create_correlation_chart :: "frame \<Rightarrow> chart option" where
  "create_correlation_chart df =
     (case select_number df of
        x_col # y_col # _ \<Rightarrow>
          Some \<lparr>chart_type = ''scatter'',
                title = ''Correlation: '' @ x_col @ '' vs '' @ y_col,
                labels = [Text x_col, Text y_col],
                datasets = [(''Data Points'',
                             Points (map number_of (column df x_col)) (map number_of (column df y_col)))],
                description = ''This scatter plot shows the relationship between '' @ x_col
                  @ '' and '' @ y_col @ ''.''\<rparr>
      | _ \<Rightarrow> None)"

subsection \<open>All charts\<close>

fun appended :: "chart list \<Rightarrow> chart option \<Rightarrow> chart list" where
  "appended visualizations None = visualizations"
| "appended visualizations (Some c) = visualizations @ [c]"

text \<open>
  The charts are built one after the other on the same frame, so the charts after the
  time series chart see the date column as that chart has left it.
\<close>

definition create_visualizations :: "pandas \<Rightarrow> pyval pydata \<Rightarrow> chart list" where
  "create_visualizations P data =
     (case data of
        NotList \<Rightarrow> []
      | Records recs \<Rightarrow>
          if recs = [] then []
          else
            (let (time_series, df) = create_time_series_chart P (data_frame P recs);
                 visualizations = appended [] time_series;
                 visualizations = appended visualizations (create_category_comparison_chart df);
                 visualizations = appended visualizations (create_distribution_chart df);
                 visualizations = appended visualizations (create_composition_chart df)
             in if length visualizations < 2
                then appended visualizations (create_correlation_chart df)
                else visualizations))"

section \<open>Example inputs\<close>

text \<open>The three records of the end-to-end example, as decoded and after cleaning.\<close>

definition example_raw :: "(string \<times> rawval) list list" where
  "example_raw =
     [[(''date'', Val (VStr ''2023-01'')), (''category'', Val (VStr ''A'')), (''revenue'', Val (VStr ''100''))],
      [(''date'', Val (VStr ''2023-02'')), (''category'', Val (VStr ''A'')), (''revenue'', Val (VStr ''150''))],
      [(''date'', Val (VStr ''2023-03'')), (''category'', Val (VStr ''A'')), (''revenue'', Val (VStr ''90''))]]"

definition example_records :: "(string \<times> pyval) list list" where
  "example_records =
     [[(''date'', VStr ''2023-01''), (''category'', VStr ''A''), (''revenue'', VFloat 100)],
      [(''date'', VStr ''2023-02''), (''category'', VStr ''A''), (''revenue'', VFloat 150)],
      [(''date'', VStr ''2023-03''), (''category'', VStr ''A''), (''revenue'', VFloat 90)]]"

text \<open>
  Five cleaned records of a sheet whose revenue column has one cell with a thousands
  separator (it stays a string) and whose units column has one empty cell.
\<close>

definition faulty_records :: "(string \<times> pyval) list list" where
  "faulty_records =
     [[(''month'', VStr ''2023-01''), (''units'', VFloat 3), (''revenue'', VFloat 100)],
      [(''month'', VStr ''2023-02''), (''units'', VFloat 4), (''revenue'', VFloat 150)],
      [(''month'', VStr ''2023-03''), (''units'', VNone), (''revenue'', VFloat 90)],
      [(''month'', VStr ''2023-04''), (''units'', VFloat 5), (''revenue'', VFloat 120)],
      [(''month'', VStr ''2023-05''), (''units'', VFloat 6), (''revenue'', VStr ''1,200'')]]"

text \<open>Ten records with a numeric score in eight, and in seven, of them.\<close>

definition eight_of_ten :: "(string \<times> pyval) list list" where
  "eight_of_ten =
     [[(''score'', VInt 1)], [(''score'', VInt 2)], [(''score'', VInt 3)], [(''score'', VInt 4)],
      [(''score'', VInt 5)], [(''score'', VInt 6)], [(''score'', VInt 7)], [(''score'', VInt 8)],
      [(''score'', VStr ''absent'')], [(''note'', VStr ''no score'')]]"

definition seven_of_ten :: "(string \<times> pyval) list list" where
  "seven_of_ten =
     [[(''score'', VInt 1)], [(''score'', VInt 2)], [(''score'', VInt 3)], [(''score'', VInt 4)],
      [(''score'', VInt 5)], [(''score'', VInt 6)], [(''score'', VInt 7)], [(''score'', VNone)],
      [(''score'', VStr ''absent'')], [(''note'', VStr ''no score'')]]"

text \<open>Records that yield no insight, and exactly two.\<close>

definition no_insight_records :: "(string \<times> pyval) list list" where
  "no_insight_records = [[(''name'', VStr ''widget'')]]"

definition two_insight_records :: "(string \<times> pyval) list list" where
  "two_insight_records =
     [[(''region'', VStr ''north''), (''sales'', VInt 10)],
      [(''region'', VStr ''south''), (''sales'', VInt 12)]]"

text \<open>Records whose columns come from several records.\<close>

definition scattered_records :: "(string \<times> pyval) list list" where
  "scattered_records =
     [[(''Order Date'', VStr ''2023-01-05''), (''units'', VInt 3)],
      [(''units'', VInt 4), (''Product Type'', VStr ''bolt''), (''weekday'', VStr ''Mon'')]]"

text \<open>A record with a week and a region.\<close>

definition weekly_records :: "(string \<times> pyval) list list" where
  "weekly_records = [[(''week'', VStr ''W01''), (''region'', VStr ''north''), (''sales'', VInt 10)]]"

text \<open>
  A pandas for the examples: a column has a number dtype when it holds numbers and
  missing cells only, and at least one number; the dates are the month strings of the
  examples, counted in months; a timestamp is shown as that count.
\<close>

definition example_months :: "(string \<times> int) list" where
  "example_months = [(''2023-01'', 0), (''2023-02'', 1), (''2023-03'', 2)]"

definition example_pandas :: pandas where
  "example_pandas =
     \<lparr>number_dtype = (\<lambda>cells. numbers cells \<noteq> [] \<and> texts cells = [] \<and> timestamps cells = []),
      to_datetime = (\<lambda>cells. Some (map (\<lambda>c. case c of Text s \<Rightarrow> map_of example_months s
                                                      | _ \<Rightarrow> None) cells)),
      str_of_cell = (\<lambda>c. case c of Timestamp t \<Rightarrow> show_int t | _ \<Rightarrow> [])\<rparr>"

text \<open>Ten sales records of nine products with the sums 90, 80, 70, 60, 50, 40, 30, 20 and 15.\<close>

definition nine_products :: "(string \<times> pyval) list list" where
  "nine_products =
     [[(''product'', VStr ''C''), (''sales'', VInt 70)],
      [(''product'', VStr ''A''), (''sales'', VInt 30)],
      [(''product'', VStr ''I''), (''sales'', VInt 10)],
      [(''product'', VStr ''B''), (''sales'', VInt 80)],
      [(''product'', VStr ''H''), (''sales'', VInt 20)],
      [(''product'', VStr ''D''), (''sales'', VInt 60)],
      [(''product'', VStr ''E''), (''sales'', VInt 50)],
      [(''product'', VStr ''G''), (''sales'', VInt 90)],
      [(''product'', VStr ''F''), (''sales'', VInt 40)],
      [(''product'', VStr ''I''), (''sales'', VInt 5)]]"

text \<open>Four records with a month, a product and two measures, one of them missing once.\<close>

definition shop_records :: "(string \<times> pyval) list list" where
  "shop_records =
     [[(''month'', VStr ''2023-02''), (''product'', VStr ''pen''), (''sales'', VFloat 150), (''units'', VInt 3)],
      [(''month'', VStr ''2023-01''), (''product'', VStr ''ink''), (''sales'', VFloat 100), (''units'', VInt 2)],
      [(''month'', VStr ''2023-01''), (''product'', VStr ''pen''), (''sales'', VFloat 90), (''units'', VNone)],
      [(''month'', VStr ''2023-03''), (''product'', VStr ''ink''), (''sales'', VFloat 120), (''units'', VInt 4)]]"

text \<open>Two records with two measures and neither a date nor a category.\<close>

definition two_measures :: "(string \<times> pyval) list list" where
  "two_measures =
     [[(''height'', VInt 1), (''weight'', VInt 2)],
      [(''height'', VInt 3), (''weight'', VInt 4)]]"

subsection \<open>Auxiliary predicates of the proofs\<close>

text \<open>A string without leading or trailing whitespace.\<close>

definition trimmed :: "string \<Rightarrow> bool" where
  "trimmed s \<longleftrightarrow> s = [] \<or> (\<not> is_space (hd s) \<and> \<not> is_space (last s))"

text \<open>A dictionary as \<open>clean_item\<close> leaves it: distinct, cleaned keys and cleaned values.\<close>

definition cleaned :: "(string \<times> pyval) list \<Rightarrow> bool" where
  "cleaned al \<longleftrightarrow>
     distinct (map fst al) \<and> (\<forall>(k, v) \<in> set al. clean_key k = k \<and> clean_value (Val v) = Inr v)"


text \<open>A frame is rectangular when every column has one cell per row.\<close>

definition rectangular :: "frame \<Rightarrow> bool" where
  "rectangular df = (\<forall>(c, t, cells) \<in> set (cols df). length cells = nrows df)"

text \<open>The lengths within one chart specification agree.\<close>

definition aligned :: "chart \<Rightarrow> bool" where
  "aligned chart =
     ((chart_type chart \<noteq> ''scatter'' \<longrightarrow>
         (\<forall>(label, series) \<in> set (datasets chart).
            \<exists>vs. series = Values vs \<and> length vs = length (labels chart)))
      \<and> (chart_type chart = ''scatter'' \<longrightarrow>
         (\<forall>(label, series) \<in> set (datasets chart).
            \<exists>xs ys. series = Points xs ys \<and> length xs = length ys)))"

section \<open>Properties of the record normalizer\<close>

subsection \<open>The cleaning pass\<close>

lemma lower_char_idem: "lower_char (lower_char c) = lower_char c"
  by (auto simp: lower_char_def upper_chars_def lower_chars_def split: if_splits)

lemma is_space_lower_char: "is_space (lower_char c) \<longleftrightarrow> is_space c"
  by (auto simp: lower_char_def upper_chars_def lower_chars_def is_space_def split: if_splits)

lemma lower_char_space: "lower_char c = CHR '' '' \<longleftrightarrow> c = CHR '' ''"
  by (auto simp: lower_char_def upper_chars_def lower_chars_def split: if_splits)

lemma lower_char_underscore: "lower_char (CHR ''_'') = CHR ''_''"
  by (simp add: lower_char_def upper_chars_def lower_chars_def)

lemma dropWhile_hd_not: "dropWhile P s \<noteq> [] \<Longrightarrow> \<not> P (hd (dropWhile P s))"
  by (metis hd_dropWhile)

lemma trimmed_strip: "trimmed (strip s)"
proof -
  define a where "a = dropWhile is_space s"
  define b where "b = dropWhile is_space (rev a)"
  have sb: "strip s = rev b" by (simp add: strip_def a_def b_def)
  show ?thesis
  proof (cases "b = []")
    case True
    then show ?thesis by (simp add: trimmed_def sb)
  next
    case False
    then have l: "\<not> is_space (hd b)" unfolding b_def by (rule dropWhile_hd_not)
    have an: "a \<noteq> []" using False by (auto simp: b_def)
    then have ha: "\<not> is_space (hd a)" unfolding a_def by (rule dropWhile_hd_not)
    have "rev a = takeWhile is_space (rev a) @ b" by (simp add: b_def)
    then have "a = rev b @ rev (takeWhile is_space (rev a))"
      by (metis rev_append rev_rev_ident)
    with False have "hd (rev b) = hd a" by (metis hd_append2 rev_is_Nil_conv)
    with ha have "\<not> is_space (hd (rev b))" by simp
    moreover from l False have "\<not> is_space (last (rev b))" by (simp add: last_rev)
    ultimately show ?thesis by (simp add: trimmed_def sb)
  qed
qed

lemma strip_trimmed: "trimmed s \<Longrightarrow> strip s = s"
proof (cases "s = []")
  case True
  then show ?thesis by (simp add: strip_def)
next
  case False
  assume "trimmed s"
  with False have h: "\<not> is_space (hd s)" and l: "\<not> is_space (last s)"
    by (auto simp: trimmed_def)
  from False h have a: "dropWhile is_space s = s" by (cases s) auto
  from False l have "dropWhile is_space (rev s) = rev s"
    by (cases "rev s") (auto simp: last_rev[symmetric] hd_rev)
  with a show ?thesis by (simp add: strip_def)
qed

lemma trimmed_map:
  assumes "trimmed s" and "\<And>c. \<not> is_space c \<Longrightarrow> \<not> is_space (f c)"
  shows "trimmed (map f s)"
proof (cases "s = []")
  case True
  then show ?thesis by (simp add: trimmed_def)
next
  case False
  with assms(1) have "\<not> is_space (hd s)" "\<not> is_space (last s)"
    by (simp_all add: trimmed_def)
  then have "\<not> is_space (f (hd s))" "\<not> is_space (f (last s))"
    using assms(2) by blast+
  with False show ?thesis by (simp add: trimmed_def hd_map last_map)
qed

lemma clean_key_idem: "clean_key (clean_key key) = clean_key key"
proof -
  let ?sp = "\<lambda>c. if c = CHR '' '' then CHR ''_'' else c"
  have t1: "trimmed (map lower_char (strip key))"
    by (rule trimmed_map[OF trimmed_strip]) (simp add: is_space_lower_char)
  have t2: "trimmed (map ?sp (map lower_char (strip key)))"
    by (rule trimmed_map[OF t1]) (auto simp: is_space_def)
  have "strip (clean_key key) = clean_key key"
    using t2 by (simp add: clean_key_def replace_char_def lower_def strip_trimmed)
  moreover have "map ?sp (map lower_char (map ?sp (map lower_char t))) = map ?sp (map lower_char t)" for t
    by (induction t) (auto simp: lower_char_idem lower_char_space lower_char_underscore)
  ultimately show ?thesis
    by (simp add: clean_key_def replace_char_def lower_def)
qed


lemma clean_value_idem: "clean_value v = Inr w \<Longrightarrow> clean_value (Val w) = Inr w"
  by (cases v rule: clean_value.cases) (auto split: if_splits float_parse.splits)

lemma update_fresh: "k \<notin> fst ` set al \<Longrightarrow> AList.update k v al = al @ [(k, v)]"
  by (induction al) auto

lemma set_update_subset: "set (AList.update k v al) \<subseteq> insert (k, v) (set al)"
  by (induction al) auto

lemma cleaned_update:
  assumes "cleaned al" and "clean_value r = Inr w"
  shows "cleaned (AList.update (clean_key key) w al)"
proof -
  have d: "distinct (map fst (AList.update (clean_key key) w al))"
    using assms(1) by (simp add: cleaned_def distinct_update)
  have "clean_key k = k \<and> clean_value (Val v) = Inr v"
    if "(k, v) \<in> set (AList.update (clean_key key) w al)" for k v
  proof -
    from that set_update_subset
    have "(k, v) = (clean_key key, w) \<or> (k, v) \<in> set al" by fastforce
    then show ?thesis
      using assms by (auto simp: cleaned_def clean_key_idem clean_value_idem)
  qed
  with d show ?thesis by (auto simp: cleaned_def)
qed

lemma cleaned_clean_pairs:
  "cleaned acc \<Longrightarrow> clean_pairs item acc = Inr result \<Longrightarrow> cleaned result"
proof (induction item acc rule: clean_pairs.induct)
  case (1 clean_item)
  then show ?case by simp
next
  case (2 key "value" rest clean_item)
  from "2.prems"(2) obtain w where w: "clean_value value = Inr w"
    and r: "clean_pairs rest (AList.update (clean_key key) w clean_item) = Inr result"
    by (auto split: sum.splits)
  from "2.prems"(1) w have "cleaned (AList.update (clean_key key) w clean_item)"
    by (rule cleaned_update)
  with "2.IH"[OF w] r show ?case by simp
qed

lemma refold_cleaned:
  "cleaned (acc @ ys) \<Longrightarrow> clean_pairs (map (\<lambda>(k, v). (k, Val v)) ys) acc = Inr (acc @ ys)"
proof (induction ys arbitrary: acc)
  case Nil
  then show ?case by simp
next
  case (Cons p ys)
  obtain k v where p: "p = (k, v)" by (cases p)
  from Cons.prems have kv: "clean_key k = k" "clean_value (Val v) = Inr v"
    and fresh: "k \<notin> fst ` set acc"
    by (auto simp: cleaned_def p)
  from Cons.prems have "cleaned ((acc @ [(k, v)]) @ ys)" by (simp add: p)
  then have "clean_pairs (map (\<lambda>(k, v). (k, Val v)) ys) (acc @ [(k, v)]) = Inr ((acc @ [(k, v)]) @ ys)"
    by (rule Cons.IH)
  then show ?case by (simp add: p kv update_fresh[OF fresh])
qed

lemma clean_pairs_idem:
  assumes "clean_pairs item [] = Inr result"
  shows "clean_pairs (map (\<lambda>(k, v). (k, Val v)) result) [] = Inr result"
proof -
  have "cleaned []" by (simp add: cleaned_def)
  from cleaned_clean_pairs[OF this assms] have "cleaned ([] @ result)" by simp
  from refold_cleaned[OF this] show ?thesis by simp
qed

lemma clean_records_idem:
  "clean_records data = Inr result \<Longrightarrow>
   clean_records (map (map (\<lambda>(k, v). (k, Val v))) result) = Inr result"
proof (induction data arbitrary: result)
  case Nil
  then show ?case by simp
next
  case (Cons item data)
  from Cons.prems obtain c cs where c: "clean_pairs item [] = Inr c"
    and cs: "clean_records data = Inr cs" and r: "result = c # cs"
    by (auto split: sum.splits)
  from Cons.IH[OF cs] clean_pairs_idem[OF c] show ?case by (simp add: r)
qed

text \<open>
  Where the cleaning pass returns, it is idempotent: cleaning its result again returns the
  result unchanged and raises nothing.
\<close>

lemma clean_data_idempotent_on_results:
  "clean_data data = Inr result \<Longrightarrow> clean_data (as_raw result) = Inr result"
proof (cases data)
  case NotList
  assume "clean_data data = Inr result"
  with NotList show ?thesis by auto
next
  case (Records recs)
  assume "clean_data data = Inr result"
  with Records obtain cs where cs: "clean_records recs = Inr cs" and r: "result = Records cs"
    by (auto split: sum.splits)
  from clean_records_idem[OF cs] show ?thesis by (simp add: r)
qed

lemmas str_eval = strip_def is_space_def lower_def lower_char_def upper_chars_def lower_chars_def
  replace_char_def digit_like_def isdigit_def is_digit_def is_decimal_def

lemmas float_eval = float_of_string_def is_float_space_def is_decimal_def nat_of_digits_def
  digit_val_def scale_def lower_def lower_char_def upper_chars_def lower_chars_def

lemma superscript_digit_like: "digit_like [CHR ''1'', CHR ''0'', CHR 0xB2]"
  by (simp add: str_eval)

lemma superscript_malformed: "float_of_string [CHR ''1'', CHR ''0'', CHR 0xB2] = Malformed"
  by (simp add: float_eval)

text \<open>
  C9. The claim that cleaning is idempotent on every list of records fails on the code by a
  slip of the digit test: \<open>str.isdigit\<close> accepts the superscript digits, \<open>float\<close>
  does not, and the conversion stands outside any \<open>try\<close>. On the record below, whose
  size cell is the text of ten followed by a superscript two, \<open>clean_data\<close> raises
  \<open>ValueError\<close> and returns no records to compare. (On every input on which it does
  return, the pass is idempotent: \<open>clean_data_idempotent_on_results\<close> above.)
\<close>

theorem clean_data_superscript_raises:
  "clean_data (Records [[(''item'', Val (VStr ''bolt'')), (''size'', Val (VStr [CHR ''1'', CHR ''0'', CHR 0xB2]))]])
     = Inl ValueError"
  by (simp add: superscript_malformed superscript_digit_like str_eval)

lemma float_examples:
  "float_of_string ''12.50'' = Parsed 12.5"
  "float_of_string '' -1_000.5e-1 '' = Parsed (- 100.05)"
  "float_of_string ''1e3'' = Parsed 1000"
  "float_of_string ''.5'' = Parsed 0.5"
  "float_of_string ''5.'' = Parsed 5"
  "float_of_string ''1,200'' = Malformed"
  "float_of_string ''1__0'' = Malformed"
  "float_of_string ''.'' = Malformed"
  "float_of_string ''1e'' = Malformed"
  "float_of_string ''-Infinity'' = NotFinite"
  "float_of_string ([CHR 0x1C] @ ''5'') = Malformed"
  "float_of_string ([CHR 0xA0] @ ''5'') = Parsed 5"
  by (simp_all add: float_eval)

lemma clean_example:
  "clean_data (Records [[('' Unit Price '', Val (VStr ''12.50'')), (''Region'', NaN)]])
     = Inr (Records [[(''unit_price'', VFloat 12.5), (''region'', VNone)]])"
  by (simp add: clean_key_def str_eval float_eval)

subsection \<open>The financial remap\<close>

lemma length_update_le: "length (AList.update k v al) \<le> Suc (length al)"
  by (induction al) auto

lemma length_claim_field:
  "length (claim_field keys ft fm) \<le> length fm + (if list_ex (name_matches (snd ft)) keys then 1 else 0)"
proof (cases "find (name_matches (snd ft)) keys")
  case None
  then show ?thesis by (simp add: claim_field_def)
next
  case (Some key)
  then have "list_ex (name_matches (snd ft)) keys"
    by (auto simp: list_ex_iff find_Some_iff)
  with Some show ?thesis
    using length_update_le[of key "fst ft" fm] by (simp add: claim_field_def)
qed

lemma length_fold_claim_field:
  "length (fold (claim_field keys) ffs fm)
     \<le> length fm + length (filter (\<lambda>ft. list_ex (name_matches (snd ft)) keys) ffs)"
proof (induction ffs arbitrary: fm)
  case Nil
  then show ?case by simp
next
  case (Cons ft ffs)
  have "length (fold (claim_field keys) ffs (claim_field keys ft fm))
      \<le> length (claim_field keys ft fm) + length (filter (\<lambda>ft. list_ex (name_matches (snd ft)) keys) ffs)"
    by (rule Cons.IH)
  with length_claim_field[of keys ft fm] show ?case by (simp split: if_splits)
qed

lemma length_detect_mapping: "length (detect_mapping sample) \<le> length (matched_targets sample)"
  using length_fold_claim_field[of "map fst sample" financial_fields "[]"]
  by (simp add: detect_mapping_def matched_targets_def)

lemma dom_fold_claim_field:
  "fst ` set (fold (claim_field keys) ffs fm)
     = fst ` set fm \<union> {key. \<exists>ft \<in> set ffs. find (name_matches (snd ft)) keys = Some key}"
proof (induction ffs arbitrary: fm)
  case Nil
  then show ?case by simp
next
  case (Cons ft ffs)
  have "fst ` set (claim_field keys ft fm)
      = fst ` set fm \<union> {key. find (name_matches (snd ft)) keys = Some key}"
    by (cases "find (name_matches (snd ft)) keys") (auto simp: claim_field_def dom_update)
  with Cons.IH[of "claim_field keys ft fm"] show ?case by auto
qed

lemma distinct_fold_claim_field:
  "distinct (map fst fm) \<Longrightarrow> distinct (map fst (fold (claim_field keys) ffs fm))"
proof (induction ffs arbitrary: fm)
  case Nil
  then show ?case by simp
next
  case (Cons ft ffs)
  have "distinct (map fst (claim_field keys ft fm))"
    using Cons.prems by (cases "find (name_matches (snd ft)) keys") (auto simp: claim_field_def distinct_update)
  then show ?case using Cons.IH by simp
qed


lemma find_app: "find P (xs @ ys) = (case find P xs of None \<Rightarrow> find P ys | Some x \<Rightarrow> Some x)"
  by (induction xs) auto

lemma map_of_fold_mapped:
  "map_of (fold (\<lambda>(orig_key, normalized_key) acc.
                      case map_of item orig_key of
                        Some v \<Rightarrow> AList.update normalized_key v acc
                      | None \<Rightarrow> acc) fm acc) k
   = (case find (\<lambda>(orig, nk). nk = k \<and> map_of item orig \<noteq> None) (rev fm) of
        Some (orig, nk) \<Rightarrow> map_of item orig
      | None \<Rightarrow> map_of acc k)"
proof (induction fm arbitrary: acc)
  case Nil
  then show ?case by simp
next
  case (Cons p fm)
  obtain orig nk where p: "p = (orig, nk)" by (cases p)
  show ?case
    by (cases "map_of item orig")
       (auto simp: p Cons.IH find_app update_conv' split: option.splits)
qed

lemma map_of_fold_copy:
  "distinct (map fst item) \<Longrightarrow>
   map_of (fold (\<lambda>(key, value) acc.
                 if map_of fm key = None then AList.update key value acc else acc) item acc) k
   = (if map_of fm k = None \<and> map_of item k \<noteq> None then map_of item k else map_of acc k)"
proof (induction item arbitrary: acc)
  case Nil
  then show ?case by simp
next
  case (Cons p item)
  obtain key v where p: "p = (key, v)" by (cases p)
  from Cons.prems have d: "distinct (map fst item)" and nk: "map_of item key = None"
    by (auto simp: p map_of_eq_None_iff)
  show ?case
    using nk by (auto simp: p Cons.IH[OF d] update_conv')
qed

lemma map_of_normalize_item:
  "distinct (map fst item) \<Longrightarrow>
   map_of (normalize_item fm item) k
   = (if map_of fm k = None \<and> map_of item k \<noteq> None then map_of item k
      else case find (\<lambda>(orig, nk). nk = k \<and> map_of item orig \<noteq> None) (rev fm) of
             Some (orig, nk) \<Rightarrow> map_of item orig
           | None \<Rightarrow> None)"
  by (simp add: normalize_item_def Let_def map_of_fold_copy map_of_fold_mapped
      split: option.splits)


lemma map_of_claim_field:
  "map_of (claim_field keys ft fm) key
     = (if find (name_matches (snd ft)) keys = Some key then Some (fst ft) else map_of fm key)"
  by (cases "find (name_matches (snd ft)) keys") (auto simp: claim_field_def update_conv')

lemma map_of_fold_claim_field:
  "map_of (fold (claim_field keys) ffs fm) key
     = (case find (\<lambda>ft. find (name_matches (snd ft)) keys = Some key) (rev ffs) of
          Some ft \<Rightarrow> Some (fst ft)
        | None \<Rightarrow> map_of fm key)"
proof (induction ffs arbitrary: fm)
  case Nil
  then show ?case by simp
next
  case (Cons ft ffs)
  show ?case
    by (auto simp: Cons.IH find_app map_of_claim_field split: option.splits)
qed

lemma map_of_detect_mapping: "map_of (detect_mapping sample) key = canonical_key sample key"
  by (simp add: detect_mapping_def canonical_key_def map_of_fold_claim_field split: option.splits)

lemma distinct_detect_mapping: "distinct (map fst (detect_mapping sample))"
  unfolding detect_mapping_def by (rule distinct_fold_claim_field) simp

lemma length_detect_mapping_card: "length (detect_mapping sample) = card (claimed_names sample)"
proof -
  have "fst ` set (detect_mapping sample) = claimed_names sample"
    unfolding detect_mapping_def claimed_names_def by (simp add: dom_fold_claim_field)
  moreover have "card (fst ` set (detect_mapping sample)) = length (detect_mapping sample)"
    using distinct_card[OF distinct_detect_mapping[of sample]] by simp
  ultimately show ?thesis by simp
qed

lemmas remap_eval = detect_mapping_def financial_fields_def claim_field_def name_matches_def
  lower_def lower_char_def upper_chars_def lower_chars_def matched_targets_def normalize_item_def

lemma ex_mapping_one: "detect_mapping [(''sales'', VInt 100), (''units'', VInt 3)] = [(''sales'', ''revenue'')]"
  by (simp add: remap_eval)

lemma ex_targets_one: "length (matched_targets [(''sales'', VInt 100), (''units'', VInt 3)]) = 1"
  by (simp add: remap_eval)

lemma ex_mapping_two:
  "detect_mapping [(''sales'', VInt 100), (''month'', VStr ''jan''), (''units'', VInt 3)]
     = [(''sales'', ''revenue''), (''month'', ''date'')]"
  by (simp add: remap_eval)

lemma ex_mapping_shared:
  "detect_mapping [(''sales_date'', VStr ''2023-01''), (''units'', VInt 3)] = [(''sales_date'', ''date'')]"
  by (simp add: remap_eval)

lemma ex_targets_shared:
  "length (matched_targets [(''sales_date'', VStr ''2023-01''), (''units'', VInt 3)]) = 2"
  by (simp add: remap_eval)

lemma ex_mapping_last:
  "detect_mapping [(''sales_date'', VStr ''2023-01''), (''profit'', VInt 7)]
     = [(''sales_date'', ''date''), (''profit'', ''profit'')]"
  by (simp add: remap_eval)

text \<open>
  C4, as the code has it. The mapping is computed from the first record alone. With fewer
  than two canonical targets matched the records come back unchanged. The threshold itself
  counts the claimed field names, the names of the first record that are the first match
  of some target: with fewer than two of them the records come back unchanged, with two or
  more every record is rebuilt. A claimed name receives the canonical key of the last
  target, in declaration order, that claims it. A rebuilt record (a dictionary, so with
  distinct keys) holds every unclaimed original field under its own key with its own value,
  and otherwise, under a canonical key, the value of the field that received this key
  when the record has that field.
\<close>

theorem financial_remap_threshold:
  "(length (matched_targets sample) < 2 \<longrightarrow>
      detect_financial_structure (Records (sample # rest)) = Records (sample # rest))
   \<and> (card (claimed_names sample) < 2 \<longrightarrow>
      detect_financial_structure (Records (sample # rest)) = Records (sample # rest))
   \<and> (2 \<le> card (claimed_names sample) \<longrightarrow>
      detect_financial_structure (Records (sample # rest))
        = Records (map (normalize_item (detect_mapping sample)) (sample # rest)))
   \<and> distinct (map fst (detect_mapping sample))
   \<and> (\<forall>key. map_of (detect_mapping sample) key = canonical_key sample key)
   \<and> (\<forall>key. key \<in> claimed_names sample \<longleftrightarrow> canonical_key sample key \<noteq> None)
   \<and> (\<forall>item \<in> set (sample # rest). distinct (map fst item) \<longrightarrow>
        (\<forall>k. map_of (normalize_item (detect_mapping sample) item) k
           = (if canonical_key sample k = None \<and> map_of item k \<noteq> None
              then map_of item k
              else case find (\<lambda>(orig, nk). nk = k \<and> map_of item orig \<noteq> None)
                          (rev (detect_mapping sample)) of
                     Some (orig, nk) \<Rightarrow> map_of item orig
                   | None \<Rightarrow> None)))"
proof -
  have le: "length (detect_mapping sample) \<le> length (matched_targets sample)"
    by (rule length_detect_mapping)
  have card: "length (detect_mapping sample) = card (claimed_names sample)"
    by (rule length_detect_mapping_card)
  have p1: "length (matched_targets sample) < 2 \<longrightarrow>
      detect_financial_structure (Records (sample # rest)) = Records (sample # rest)"
    using le by (simp add: Let_def)
  have p2: "card (claimed_names sample) < 2 \<longrightarrow>
      detect_financial_structure (Records (sample # rest)) = Records (sample # rest)"
    by (simp add: Let_def card)
  have p3: "2 \<le> card (claimed_names sample) \<longrightarrow>
      detect_financial_structure (Records (sample # rest))
        = Records (map (normalize_item (detect_mapping sample)) (sample # rest))"
    by (simp add: Let_def card)
  have p4: "distinct (map fst (detect_mapping sample))"
    by (rule distinct_detect_mapping)
  have p5: "\<forall>key. map_of (detect_mapping sample) key = canonical_key sample key"
    by (simp add: map_of_detect_mapping)
  have "fst ` set (detect_mapping sample) = claimed_names sample"
    unfolding detect_mapping_def claimed_names_def by (simp add: dom_fold_claim_field)
  then have p6: "\<forall>key. key \<in> claimed_names sample \<longleftrightarrow> canonical_key sample key \<noteq> None"
    using map_of_detect_mapping[of sample]
    by (metis map_of_eq_None_iff)
  have p7: "\<forall>item \<in> set (sample # rest). distinct (map fst item) \<longrightarrow>
        (\<forall>k. map_of (normalize_item (detect_mapping sample) item) k
           = (if canonical_key sample k = None \<and> map_of item k \<noteq> None
              then map_of item k
              else case find (\<lambda>(orig, nk). nk = k \<and> map_of item orig \<noteq> None)
                          (rev (detect_mapping sample)) of
                     Some (orig, nk) \<Rightarrow> map_of item orig
                   | None \<Rightarrow> None))"
    unfolding map_of_detect_mapping[symmetric]
    using map_of_normalize_item by blast
  from p1 p2 p3 p4 p5 p6 p7 show ?thesis by (intro conjI)
qed


theorem financial_remap_threshold_witness:
  "detect_financial_structure
      (Records [[(''sales'', VInt 100), (''units'', VInt 3)], [(''sales'', VInt 5)]])
     = Records [[(''sales'', VInt 100), (''units'', VInt 3)], [(''sales'', VInt 5)]]
   \<and> detect_financial_structure
      (Records [[(''sales'', VInt 100), (''month'', VStr ''jan''), (''units'', VInt 3)],
                [(''sales'', VInt 5), (''units'', VInt 1)]])
     = Records [[(''revenue'', VInt 100), (''date'', VStr ''jan''), (''units'', VInt 3)],
                [(''revenue'', VInt 5), (''units'', VInt 1)]]
   \<and> detect_financial_structure
      (Records [[(''sales_date'', VStr ''2023-01''), (''profit'', VInt 7)]])
     = Records [[(''date'', VStr ''2023-01''), (''profit'', VInt 7)]]
   \<and> canonical_key [(''sales_date'', VStr ''2023-01''), (''profit'', VInt 7)] ''sales_date''
     = Some ''date''"
proof -
  let ?one = "[(''sales'', VInt 100), (''units'', VInt 3)]"
  let ?two = "[(''sales'', VInt 100), (''month'', VStr ''jan''), (''units'', VInt 3)]"
  let ?last = "[(''sales_date'', VStr ''2023-01''), (''profit'', VInt 7)]"
  have c2: "card (claimed_names ?two) = 2"
    using length_detect_mapping_card[of ?two] by (simp add: ex_mapping_two)
  have c3: "card (claimed_names ?last) = 2"
    using length_detect_mapping_card[of ?last] by (simp add: ex_mapping_last)
  have a: "detect_financial_structure (Records (?one # [[(''sales'', VInt 5)]]))
      = Records (?one # [[(''sales'', VInt 5)]])"
    using financial_remap_threshold[of ?one "[[(''sales'', VInt 5)]]"]
    by (simp add: ex_targets_one)
  have b: "detect_financial_structure (Records (?two # [[(''sales'', VInt 5), (''units'', VInt 1)]]))
      = Records (map (normalize_item (detect_mapping ?two))
                   (?two # [[(''sales'', VInt 5), (''units'', VInt 1)]]))"
    using financial_remap_threshold[of ?two "[[(''sales'', VInt 5), (''units'', VInt 1)]]"]
    by (simp add: c2)
  have c: "detect_financial_structure (Records (?last # []))
      = Records (map (normalize_item (detect_mapping ?last)) (?last # []))"
    using financial_remap_threshold[of ?last "[]"]
    by (simp add: c3)
  have d: "canonical_key ?last ''sales_date'' = map_of (detect_mapping ?last) ''sales_date''"
    using financial_remap_threshold[of ?last "[]"] by simp
  from a b c d show ?thesis
    by (simp add: ex_mapping_two ex_mapping_last normalize_item_def)
qed

text \<open>
  C4 as stated fails: in the record below the single field name \<open>sales_date\<close> is the
  first match of two canonical targets (revenue through \<open>sales\<close>, date through
  \<open>date\<close>), so two targets are matched, yet the mapping has one entry and the
  records are returned unchanged, not rebuilt.
\<close>

theorem financial_remap_counterexample:
  "length (matched_targets [(''sales_date'', VStr ''2023-01''), (''units'', VInt 3)]) = 2
   \<and> detect_financial_structure (Records [[(''sales_date'', VStr ''2023-01''), (''units'', VInt 3)]])
       = Records [[(''sales_date'', VStr ''2023-01''), (''units'', VInt 3)]]
   \<and> map (normalize_item (detect_mapping [(''sales_date'', VStr ''2023-01''), (''units'', VInt 3)]))
         [[(''sales_date'', VStr ''2023-01''), (''units'', VInt 3)]]
       \<noteq> [[(''sales_date'', VStr ''2023-01''), (''units'', VInt 3)]]"
  by (simp add: ex_targets_shared ex_mapping_shared normalize_item_def)

section \<open>Properties of the field classifier and the insight engine\<close>

lemmas an_eval = str_eval float_eval name_matches_def

lemmas fmt_eval = fmt_def round_half_even_def digit_char_def Let_def

lemma fmt_340: "fmt 2 340 = ''340.00''" by (simp add: fmt_eval)
lemma fmt_avg: "fmt 2 (340 / 3) = ''113.33''" by (simp add: fmt_eval)
lemma fmt_150: "fmt 2 150 = ''150.00''" by (simp add: fmt_eval)
lemma fmt_90: "fmt 2 90 = ''90.00''" by (simp add: fmt_eval)
lemma fmt_667: "fmt (Suc 0) (200 / 3) = ''66.7''" by (simp add: fmt_eval)

lemma example_max: "maximum [100, 150, 90] = 150" by (simp add: maximum_def)
lemma example_min: "minimum [100, 150, 90] = 90" by (simp add: minimum_def)
lemma example_spread: "percent_change 90 150 = 200 / 3" by (simp add: percent_change_def)
lemma revenue_is_money: "name_matches [''revenue'', ''profit'', ''sales'', ''income''] ''revenue''"
  by (simp add: name_matches_def lower_def lower_char_def upper_chars_def lower_chars_def)
lemma display_revenue: "display ''revenue'' = ''revenue''" by (simp add: display_def replace_char_def)

lemma example_statistics: "statistics_of ''revenue'' [100, 150, 90] =
  [''The total revenue is 340.00.'', ''The average revenue is 113.33.'',
   ''The maximum revenue recorded is 150.00.'', ''The minimum revenue recorded is 90.00.'',
   ''There is a 66.7% difference between the highest and lowest revenue.'']"
  by (simp add: statistics_of_def Let_def example_max example_min example_spread revenue_is_money display_revenue fmt_340 fmt_avg fmt_150 fmt_90 fmt_667)


lemma example_values: "float_all (field_values ''revenue'' example_records) = Inr [100, 150, 90]"
  by (simp add: example_records_def field_values_def List.map_filter_def)

lemma example_statistical: "generate_statistical_insights example_records [''revenue''] = Inr
  [''The total revenue is 340.00.'', ''The average revenue is 113.33.'',
   ''The maximum revenue recorded is 150.00.'', ''The minimum revenue recorded is 90.00.'',
   ''There is a 66.7% difference between the highest and lowest revenue.'']"
  by (simp add: example_values example_statistics)

lemma example_points: "collect_points ''date'' ''revenue'' example_records
   = Inr [(VStr ''2023-01'', 100), (VStr ''2023-02'', 150), (VStr ''2023-03'', 90)]"
  by (simp add: example_records_def)

lemma example_sort: "sort_by_key fst [(VStr ''2023-01'', 100::real), (VStr ''2023-02'', 150), (VStr ''2023-03'', 90)]
   = Inr [(VStr ''2023-01'', 100), (VStr ''2023-02'', 150), (VStr ''2023-03'', 90)]"
  by (simp add: sort_by_key_def)

lemma fmt_minus_10: "fmt (Suc 0) (- 10) = ''-10.0''" by (simp add: fmt_eval)

lemma example_change: "percent_change 100 90 = - 10" by (simp add: percent_change_def)

lemma example_trend: "trend_of ''revenue'' [(VStr ''2023-01'', 100), (VStr ''2023-02'', 150), (VStr ''2023-03'', 90)]
   = [''The revenue remains relatively stable over the analyzed period (change: -10.0%).'']"
  by (simp add: trend_of_def Let_def example_change display_revenue fmt_minus_10)

lemma example_trend_field: "trend_for_field ''date'' example_records ''revenue''
   = Inr [''The revenue remains relatively stable over the analyzed period (change: -10.0%).'']"
  by (simp add: trend_for_field_def example_points example_sort example_trend)

lemma example_categories: "collect_categories fr ''category'' ''revenue'' example_records [] = Inr [(''A'', [100, 150, 90])]"
  by (simp add: example_records_def group_append_def)

lemma example_organized: "collect_organized fr ''date'' ''category'' ''revenue'' example_records []
   = Inr [(''A'', [(VStr ''2023-01'', [100]), (VStr ''2023-02'', [150]), (VStr ''2023-03'', [90])])]"
  by (simp add: example_records_def nest_append_def group_append_def)


lemma example_clean: "clean_data (Records example_raw) = Inr (Records example_records)"
  by (simp add: example_raw_def example_records_def clean_key_def an_eval)

lemma example_numeric: "identify_numeric_fields example_records = [''revenue'']"
  by (simp add: example_records_def numeric_count_def an_eval)

lemma example_date: "identify_date_fields example_records = [''date'']"
  by (simp add: example_records_def date_indicators_def an_eval)

lemma example_category: "identify_category_fields example_records = [''category'']"
  by (simp add: example_records_def category_indicators_def an_eval)

lemma example_gather: "gather_insights fr example_records = Inr
  [''The total revenue is 340.00.'', ''The average revenue is 113.33.'',
   ''The maximum revenue recorded is 150.00.'', ''The minimum revenue recorded is 90.00.'',
   ''There is a 66.7% difference between the highest and lowest revenue.'',
   ''The revenue remains relatively stable over the analyzed period (change: -10.0%).'']"
  by (simp add: gather_insights_def Let_def example_numeric example_date example_category example_values example_statistics generate_trend_insights_def example_trend_field
        generate_category_insights_def category_for_field_def example_categories
        generate_complex_insights_def complex_for_field_def example_organized swallow_def)

lemma example_records_cons: "example_records = hd example_records # tl example_records"
  by (simp add: example_records_def)

text \<open>
  C2. The three records of the end-to-end example, cleaned and analysed: \<open>revenue\<close> is
  the numeric field and \<open>date\<close> the date field; the insights are the six strings below,
  among them the total 340.00 and the average 113.33; the percent change from the first to
  the last value is exactly \<open>-10\<close>, which is neither above 10 nor below \<open>-10\<close>, so
  the trend insight is the stable one. (All the numbers met here, 340/3 apart, are
  doubles, and the double nearest to 340/3 prints as 113.33 as well.)
\<close>

theorem end_to_end_example:
  "clean_data (Records example_raw) = Inr (Records example_records)
   \<and> identify_numeric_fields example_records = [''revenue'']
   \<and> identify_date_fields example_records = [''date'']
   \<and> percent_change 100 90 = - 10
   \<and> generate_trend_insights example_records [''date''] [''revenue'']
       = [''The revenue remains relatively stable over the analyzed period (change: -10.0%).'']
   \<and> map_sum id set (analyze_data fr (Records example_records)) = Inr
     {''The total revenue is 340.00.'', ''The average revenue is 113.33.'',
      ''The maximum revenue recorded is 150.00.'', ''The minimum revenue recorded is 90.00.'',
      ''There is a 66.7% difference between the highest and lowest revenue.'',
      ''The revenue remains relatively stable over the analyzed period (change: -10.0%).''}"
proof -
  have "analyze_body fr (Records example_records) = Inr (remdups
  [''The total revenue is 340.00.'', ''The average revenue is 113.33.'',
   ''The maximum revenue recorded is 150.00.'', ''The minimum revenue recorded is 90.00.'',
   ''There is a 66.7% difference between the highest and lowest revenue.'',
   ''The revenue remains relatively stable over the analyzed period (change: -10.0%).''])"
    by (subst example_records_cons, simp only: analyze_body_def pydata.case list.case)
       (simp add: example_records_cons[symmetric] example_gather)
  then have a: "map_sum id set (analyze_data fr (Records example_records)) = Inr
     {''The total revenue is 340.00.'', ''The average revenue is 113.33.'',
      ''The maximum revenue recorded is 150.00.'', ''The minimum revenue recorded is 90.00.'',
      ''There is a 66.7% difference between the highest and lowest revenue.'',
      ''The revenue remains relatively stable over the analyzed period (change: -10.0%).''}"
    by (simp add: analyze_data_def)
  have t: "generate_trend_insights example_records [''date''] [''revenue'']
       = [''The revenue remains relatively stable over the analyzed period (change: -10.0%).'']"
    by (simp add: generate_trend_insights_def example_trend_field swallow_def)
  from example_clean example_numeric example_date example_change t a show ?thesis
    by (intro conjI)
qed

lemma recommendations_length: "length generate_recommendations = 5"
  by (simp add: generate_recommendations_def)

lemma analyze_body_records:
  "gather_insights fr (sample # rest) = Inr insights \<Longrightarrow>
   analyze_body fr (Records (sample # rest))
     = (if length (remdups insights) < 3 then Inr (remdups insights @ generate_recommendations)
        else Inr (remdups insights))"
  by (simp add: analyze_body_def Let_def)

lemma analyze_body_raise:
  "gather_insights fr (sample # rest) = Inl e \<Longrightarrow>
   analyze_body fr (Records (sample # rest)) = Inl e"
  by (simp add: analyze_body_def)

text \<open>
  C6. When the generators return fewer than three distinct insight strings,
  \<open>analyze_data\<close> returns these strings, each once, followed by the five fixed
  recommendations: as many strings as there are distinct insights, plus five.
\<close>

theorem fallback_recommendations:
  assumes "gather_insights fr (sample # rest) = Inr insights"
    and "card (set insights) < 3"
  shows "analyze_data fr (Records (sample # rest)) = Inr (remdups insights @ generate_recommendations)
         \<and> length (remdups insights @ generate_recommendations) = card (set insights) + 5
         \<and> length generate_recommendations = 5"
proof -
  have "length (remdups insights) = card (set insights)"
    by (simp add: length_remdups_card_conv)
  with assms show ?thesis
    by (simp add: analyze_data_def analyze_body_records recommendations_length)
qed

text \<open>
  C10. For every argument \<open>analyze_data\<close> returns, and never an empty list: a non-list
  or an empty list gives the insufficient-data string, an exception the error string, and
  fewer than three distinct insights bring the five recommendations.
\<close>

theorem analyze_data_nonempty:
  "\<exists>out. analyze_data fr data = Inr out \<and> out \<noteq> []"
proof (cases data)
  case NotList
  then show ?thesis by (simp add: analyze_data_def analyze_body_def)
next
  case (Records recs)
  show ?thesis
  proof (cases recs)
    case Nil
    with Records show ?thesis by (simp add: analyze_data_def analyze_body_def)
  next
    case (Cons sample rest)
    show ?thesis
    proof (cases "gather_insights fr (sample # rest)")
      case (Inl e)
      with Records Cons show ?thesis
        by (simp add: analyze_data_def analyze_body_raise)
    next
      case (Inr insights)
      have "generate_recommendations \<noteq> []" by (simp add: generate_recommendations_def)
      moreover have "\<not> length (remdups insights) < 3 \<Longrightarrow> remdups insights \<noteq> []" by auto
      ultimately show ?thesis
        using Records Cons Inr by (auto simp: analyze_data_def analyze_body_records)
    qed
  qed
qed

lemma numeric_fraction: "n \<noteq> 0 \<Longrightarrow> real c / real n \<ge> 0.8 \<longleftrightarrow> 4 * n \<le> 5 * c"
proof -
  assume "n \<noteq> 0"
  then have "real c / real n \<ge> 0.8 \<longleftrightarrow> 0.8 * real n \<le> real c"
    by (simp add: pos_le_divide_eq mult.commute)
  also have "\<dots> \<longleftrightarrow> real (4 * n) \<le> real (5 * c)" by auto
  also have "\<dots> \<longleftrightarrow> 4 * n \<le> 5 * c" by (simp only: of_nat_le_iff)
  finally show ?thesis .
qed

lemma numeric_candidates:
  "field \<in> set (map fst (filter (\<lambda>(key, value). is_numeric_value value) sample))
     \<longleftrightarrow> (\<exists>v. (field, v) \<in> set sample \<and> is_numeric_value v)"
  by force

text \<open>
  C3. A field is classified numeric exactly when the first record holds it with a numeric
  value (a number, or a string that passes the digit test) and the records in which it is
  present with a numeric value are at least 0.8 of all records, that is
  \<open>4 * length data \<le> 5 * count\<close>; an empty record set has no numeric field. In a
  record, which is a dictionary, \<open>(field, v) \<in> set item\<close> says that the value of
  \<open>field\<close> is \<open>v\<close>. (The code divides two floats: its quotient compares with 0.8 as
  the exact one does for every record count below \<open>10\<^sup>15\<close>.)
\<close>

theorem numeric_classification:
  "(field \<in> set (identify_numeric_fields data) \<longleftrightarrow>
      data \<noteq> []
      \<and> (\<exists>v. (field, v) \<in> set (hd data) \<and> is_numeric_value v)
      \<and> real (numeric_count field data) / real (length data) \<ge> 0.8)
   \<and> (data \<noteq> [] \<longrightarrow>
        (real (numeric_count field data) / real (length data) \<ge> 0.8
           \<longleftrightarrow> 4 * length data \<le> 5 * numeric_count field data))
   \<and> identify_numeric_fields [] = []"
proof (cases data)
  case Nil
  then show ?thesis by simp
next
  case (Cons sample rest)
  have "field \<in> set (identify_numeric_fields (sample # rest)) \<longleftrightarrow>
      (\<exists>v. (field, v) \<in> set sample \<and> is_numeric_value v)
      \<and> real (numeric_count field (sample # rest)) / real (length (sample # rest)) \<ge> 0.8"
    using numeric_candidates[of field sample]
    by (simp only: identify_numeric_fields.simps Let_def set_filter mem_Collect_eq)
  moreover have "real (numeric_count field (sample # rest)) / real (length (sample # rest)) \<ge> 0.8
           \<longleftrightarrow> 4 * length (sample # rest) \<le> 5 * numeric_count field (sample # rest)"
    by (rule numeric_fraction) simp
  ultimately show ?thesis using Cons by simp
qed

lemma faulty_numeric: "identify_numeric_fields faulty_records = [''units'', ''revenue'']"
  by (simp add: faulty_records_def numeric_count_def an_eval)

lemma faulty_units_values: "float_all (field_values ''units'' faulty_records) = Inr [3, 4, 5, 6]"
  by (simp add: faulty_records_def field_values_def List.map_filter_def)

lemma faulty_revenue_values: "float_all (field_values ''revenue'' faulty_records) = Inl ValueError"
  by (simp add: faulty_records_def field_values_def List.map_filter_def an_eval)

lemma fmt_18: "fmt 2 18 = ''18.00''" by (simp add: fmt_eval)
lemma fmt_45: "fmt 2 (9 / 2) = ''4.50''" by (simp add: fmt_eval)
lemma fmt_6: "fmt 2 6 = ''6.00''" by (simp add: fmt_eval)
lemma fmt_3: "fmt 2 3 = ''3.00''" by (simp add: fmt_eval)

lemma units_statistics: "statistics_of ''units'' [3, 4, 5, 6] =
  [''The total units is 18.00.'', ''The average units is 4.50.'',
   ''The maximum units recorded is 6.00.'', ''The minimum units recorded is 3.00.'']"
  by (simp add: statistics_of_def Let_def maximum_def minimum_def display_def replace_char_def
        name_matches_def lower_def lower_char_def upper_chars_def lower_chars_def fmt_18 fmt_45 fmt_6 fmt_3)

lemma faulty_units_points:
  "collect_points ''month'' ''units'' faulty_records
     = Inr [(VStr ''2023-01'', 3), (VStr ''2023-02'', 4), (VStr ''2023-04'', 5), (VStr ''2023-05'', 6)]"
  by (simp add: faulty_records_def)

lemma faulty_revenue_points: "collect_points ''month'' ''revenue'' faulty_records = Inl ValueError"
  by (simp add: faulty_records_def an_eval)

lemma faulty_sort:
  "sort_by_key fst [(VStr ''2023-01'', 3::real), (VStr ''2023-02'', 4), (VStr ''2023-04'', 5), (VStr ''2023-05'', 6)]
     = Inr [(VStr ''2023-01'', 3), (VStr ''2023-02'', 4), (VStr ''2023-04'', 5), (VStr ''2023-05'', 6)]"
  by (simp add: sort_by_key_def)

lemma fmt_100: "fmt (Suc 0) 100 = ''100.0''" by (simp add: fmt_eval)

lemma faulty_units_trend:
  "trend_of ''units'' [(VStr ''2023-01'', 3), (VStr ''2023-02'', 4), (VStr ''2023-04'', 5), (VStr ''2023-05'', 6)]
     = [''The units shows an increasing trend of 100.0% over the analyzed period.'']"
  by (simp add: trend_of_def Let_def percent_change_def display_def replace_char_def fmt_100)

text \<open>
  C1. The claim that an error in one field is swallowed, with the insights produced so far
  returned, fails for the statistical generator, whose coercion \<open>float(item[field])\<close>
  stands before its \<open>try\<close>. On the five records below both \<open>units\<close> and
  \<open>revenue\<close> are classified numeric; \<open>units\<close> alone yields four statistical
  insights; the revenue cell \<open>1,200\<close> makes the coercion raise, and \<open>analyze_data\<close>
  returns the one error string and none of the insights. The trend generator, which coerces
  inside its \<open>try\<close>, meets the same cell, drops the revenue field and keeps the trend of
  the units.
\<close>

theorem statistical_coercion_escapes:
  "identify_numeric_fields faulty_records = [''units'', ''revenue'']
   \<and> generate_statistical_insights faulty_records [''units''] = Inr
        [''The total units is 18.00.'', ''The average units is 4.50.'',
         ''The maximum units recorded is 6.00.'', ''The minimum units recorded is 3.00.'']
   \<and> generate_statistical_insights faulty_records [''units'', ''revenue''] = Inl ValueError
   \<and> generate_trend_insights faulty_records [''month''] [''units'', ''revenue'']
        = [''The units shows an increasing trend of 100.0% over the analyzed period.'']
   \<and> analyze_data fr (Records faulty_records)
        = Inr [''Error analyzing data. Please check the input format.'']"
proof -
  have s1: "generate_statistical_insights faulty_records [''units''] = Inr
        [''The total units is 18.00.'', ''The average units is 4.50.'',
         ''The maximum units recorded is 6.00.'', ''The minimum units recorded is 3.00.'']"
    by (simp add: faulty_units_values units_statistics)
  have s2: "generate_statistical_insights faulty_records [''units'', ''revenue''] = Inl ValueError"
    by (simp add: faulty_units_values faulty_revenue_values)
  have t: "generate_trend_insights faulty_records [''month''] [''units'', ''revenue'']
        = [''The units shows an increasing trend of 100.0% over the analyzed period.'']"
    by (simp add: generate_trend_insights_def trend_for_field_def swallow_def
          faulty_units_points faulty_revenue_points faulty_sort faulty_units_trend)
  have g: "gather_insights fr faulty_records = Inl ValueError"
    by (simp add: gather_insights_def Let_def faulty_numeric faulty_units_values
          faulty_revenue_values)
  have c: "faulty_records = hd faulty_records # tl faulty_records"
    by (simp add: faulty_records_def)
  have "analyze_body fr (Records (hd faulty_records # tl faulty_records)) = Inl ValueError"
    by (rule analyze_body_raise) (simp add: c[symmetric] g)
  then have a: "analyze_data fr (Records faulty_records)
        = Inr [''Error analyzing data. Please check the input format.'']"
    by (simp add: analyze_data_def c[symmetric])
  from faulty_numeric s1 s2 t a show ?thesis by (intro conjI)
qed

lemma eight_count: "numeric_count ''score'' eight_of_ten = 8"
  by (simp add: eight_of_ten_def numeric_count_def an_eval)

lemma seven_count: "numeric_count ''score'' seven_of_ten = 7"
  by (simp add: seven_of_ten_def numeric_count_def an_eval)

theorem numeric_classification_witness:
  "''score'' \<in> set (identify_numeric_fields eight_of_ten)
   \<and> ''score'' \<notin> set (identify_numeric_fields seven_of_ten)"
proof -
  have l8: "length eight_of_ten = 10" and h8: "(''score'', VInt 1) \<in> set (hd eight_of_ten)"
    and n8: "eight_of_ten \<noteq> []"
    by (simp_all add: eight_of_ten_def)
  have l7: "length seven_of_ten = 10" by (simp add: seven_of_ten_def)
  have "''score'' \<in> set (identify_numeric_fields eight_of_ten)"
    using numeric_classification[of "''score''" eight_of_ten] h8 n8
    by (auto simp: eight_count l8)
  moreover have "''score'' \<notin> set (identify_numeric_fields seven_of_ten)"
    using numeric_classification[of "''score''" seven_of_ten]
    by (simp add: seven_count l7)
  ultimately show ?thesis by simp
qed

lemma no_insight_gather: "gather_insights fr no_insight_records = Inr []"
  by (simp add: gather_insights_def Let_def no_insight_records_def date_indicators_def
        category_indicators_def generate_trend_insights_def generate_category_insights_def
        generate_complex_insights_def an_eval)

lemma two_insight_numeric: "identify_numeric_fields two_insight_records = [''sales'']"
  by (simp add: two_insight_records_def numeric_count_def an_eval)

lemma two_insight_date: "identify_date_fields two_insight_records = []"
  by (simp add: two_insight_records_def date_indicators_def an_eval)

lemma two_insight_category: "identify_category_fields two_insight_records = [''region'']"
  by (simp add: two_insight_records_def category_indicators_def an_eval)

lemma two_insight_values: "float_all (field_values ''sales'' two_insight_records) = Inr [10, 12]"
  by (simp add: two_insight_records_def field_values_def List.map_filter_def)

lemma two_insight_groups:
  "collect_categories fr ''region'' ''sales'' two_insight_records []
     = Inr [(''north'', [10]), (''south'', [12])]"
  by (simp add: two_insight_records_def group_append_def)

lemma fmt_12: "fmt 2 12 = ''12.00''" by (simp add: fmt_eval)
lemma fmt_10: "fmt 2 10 = ''10.00''" by (simp add: fmt_eval)

lemma two_insight_sentences:
  "category_of ''sales'' [(''north'', [10]), (''south'', [12])] =
     [''The best performing category in terms of sales is '' @ quoted ''south''
        @ '' with an average of 12.00.'',
      ''The lowest performing category in terms of sales is '' @ quoted ''north''
        @ '' with an average of 10.00.'']"
  by (simp add: category_of_def Let_def sorted_desc_def mean_def percent_change_def
        display_def replace_char_def fmt_12 fmt_10)

lemma two_insight_gather:
  "gather_insights fr two_insight_records = Inr
     [''The best performing category in terms of sales is '' @ quoted ''south''
        @ '' with an average of 12.00.'',
      ''The lowest performing category in terms of sales is '' @ quoted ''north''
        @ '' with an average of 10.00.'']"
  by (simp add: gather_insights_def Let_def two_insight_numeric two_insight_date
        two_insight_category two_insight_values statistics_of_def
        generate_category_insights_def category_for_field_def swallow_def
        two_insight_groups two_insight_sentences)

theorem fallback_recommendations_witness:
  "analyze_data (fmt 1) (Records no_insight_records) = Inr generate_recommendations
   \<and> map_sum id length (analyze_data (fmt 1) (Records two_insight_records)) = Inr (2 + 5)"
proof -
  have c0: "no_insight_records = hd no_insight_records # tl no_insight_records"
    by (simp add: no_insight_records_def)
  have c2: "two_insight_records = hd two_insight_records # tl two_insight_records"
    by (simp add: two_insight_records_def)
  have "analyze_data (fmt 1) (Records (hd no_insight_records # tl no_insight_records))
      = Inr (remdups [] @ generate_recommendations)"
    using fallback_recommendations[of "fmt 1" "hd no_insight_records" "tl no_insight_records" "[]"]
    by (simp add: c0[symmetric] no_insight_gather)
  then have a0: "analyze_data (fmt 1) (Records no_insight_records) = Inr generate_recommendations"
    by (simp add: c0[symmetric])
  let ?two = "[''The best performing category in terms of sales is '' @ quoted ''south''
        @ '' with an average of 12.00.'',
      ''The lowest performing category in terms of sales is '' @ quoted ''north''
        @ '' with an average of 10.00.'']"
  have card2: "card (set ?two) = 2" by (simp add: quoted_def)
  have g2: "gather_insights (fmt 1) (hd two_insight_records # tl two_insight_records) = Inr ?two"
    using two_insight_gather[of "fmt 1"] by (simp only: c2[symmetric])
  have lt: "card (set ?two) < 3" by (simp only: card2)
  from fallback_recommendations[OF g2 lt]
  have "analyze_data (fmt 1) (Records two_insight_records) = Inr (remdups ?two @ generate_recommendations)"
    and "length (remdups ?two @ generate_recommendations) = 2 + 5"
    by (simp_all only: c2[symmetric] card2)
  then have "map_sum id length (analyze_data (fmt 1) (Records two_insight_records)) = Inr (2 + 5)"
    by (simp only: map_sum.simps)
  with a0 show ?thesis by (intro conjI)
qed

section \<open>Properties of the visualization engine\<close>

subsection \<open>Dimension candidates\<close>

lemma name_matches_cong: "set xs = set ys \<Longrightarrow> name_matches xs = name_matches ys"
  by (auto simp: name_matches_def list_ex_iff fun_eq_iff)

lemma set_df_columns: "set (df_columns data) = (\<Union>item \<in> set data. fst ` set item)"
  by (auto simp: df_columns_def)

lemma distinct_df_columns: "distinct (df_columns data)"
  by (simp add: df_columns_def)

text \<open>
  C5, as the code has it. The visualization engine takes its candidates from all column
  names, not from the first record alone. Its date candidates are the columns whose
  lowercased name contains one of the classifier's date terms other than \<open>day\<close> and
  \<open>week\<close>, and its category candidates those whose name contains one of the classifier's
  category terms other than \<open>region\<close> and \<open>country\<close>; so every candidate would be
  classified the same way by name, but not conversely.
\<close>

theorem visualizer_candidates:
  "date_columns (df_columns data)
     = filter (name_matches (filter (\<lambda>t. t \<notin> {''day'', ''week''}) date_indicators)) (df_columns data)
   \<and> category_columns (df_columns data)
     = filter (name_matches (filter (\<lambda>t. t \<notin> {''region'', ''country''}) category_indicators))
         (df_columns data)
   \<and> set (df_columns data) = (\<Union>item \<in> set data. fst ` set item)
   \<and> set (date_columns (df_columns data))
       \<subseteq> {c \<in> set (df_columns data). name_matches date_indicators c}
   \<and> set (category_columns (df_columns data))
       \<subseteq> {c \<in> set (df_columns data). name_matches category_indicators c}"
proof -
  have d: "name_matches (filter (\<lambda>t. t \<notin> {''day'', ''week''}) date_indicators)
             = name_matches date_terms"
    by (rule name_matches_cong) (auto simp: date_indicators_def date_terms_def)
  have c: "name_matches (filter (\<lambda>t. t \<notin> {''region'', ''country''}) category_indicators)
             = name_matches category_terms"
    by (rule name_matches_cong) (auto simp: category_indicators_def category_terms_def)
  have ds: "name_matches date_terms col \<Longrightarrow> name_matches date_indicators col" for col
    by (auto simp: name_matches_def list_ex_iff date_indicators_def date_terms_def)
  have cs: "name_matches category_terms col \<Longrightarrow> name_matches category_indicators col" for col
    by (auto simp: name_matches_def list_ex_iff category_indicators_def category_terms_def)
  have p1: "date_columns (df_columns data)
     = filter (name_matches (filter (\<lambda>t. t \<notin> {''day'', ''week''}) date_indicators)) (df_columns data)"
    unfolding d by (simp only: date_columns_def)
  have p2: "category_columns (df_columns data)
     = filter (name_matches (filter (\<lambda>t. t \<notin> {''region'', ''country''}) category_indicators))
         (df_columns data)"
    unfolding c by (simp only: category_columns_def)
  have p3: "set (df_columns data) = (\<Union>item \<in> set data. fst ` set item)"
    by (rule set_df_columns)
  have p4: "set (date_columns (df_columns data))
       \<subseteq> {c \<in> set (df_columns data). name_matches date_indicators c}"
    using ds by (auto simp: date_columns_def)
  have p5: "set (category_columns (df_columns data))
       \<subseteq> {c \<in> set (df_columns data). name_matches category_indicators c}"
    using cs by (auto simp: category_columns_def)
  from p1 p2 p3 p4 p5 show ?thesis by (intro conjI)
qed

lemma scattered_columns:
  "df_columns scattered_records = [''Order Date'', ''units'', ''Product Type'', ''weekday'']"
  by (simp add: df_columns_def scattered_records_def)

theorem visualizer_candidates_witness:
  "date_columns (df_columns scattered_records) = [''Order Date'']
   \<and> category_columns (df_columns scattered_records) = [''Product Type'']
   \<and> identify_date_fields scattered_records = [''Order Date'']
   \<and> identify_category_fields scattered_records = []"
proof -
  have "filter (\<lambda>t. t \<notin> {''day'', ''week''}) date_indicators
          = [''date'', ''period'', ''month'', ''year'', ''quarter'']"
    by (simp add: date_indicators_def)
  moreover have "filter (\<lambda>t. t \<notin> {''region'', ''country''}) category_indicators
          = [''category'', ''type'', ''department'', ''division'', ''segment'', ''product'']"
    by (simp add: category_indicators_def)
  moreover have "identify_date_fields scattered_records = [''Order Date'']"
    by (simp add: scattered_records_def date_indicators_def an_eval)
  moreover have "identify_category_fields scattered_records = []"
    by (simp add: scattered_records_def category_indicators_def an_eval)
  ultimately show ?thesis
    using visualizer_candidates[of scattered_records]
    by (simp add: scattered_columns an_eval)
qed

text \<open>
  C5 as stated fails: a column named \<open>week\<close> matches the classifier's date terms and a
  column named \<open>region\<close> its category terms, and neither is a candidate of the
  visualization engine.
\<close>

theorem visualizer_candidates_counterexample:
  "date_columns (df_columns weekly_records) = []
   \<and> filter (name_matches date_indicators) (df_columns weekly_records) = [''week'']
   \<and> category_columns (df_columns weekly_records) = []
   \<and> filter (name_matches category_indicators) (df_columns weekly_records) = [''region'']"
  by (simp add: df_columns_def weekly_records_def date_columns_def category_columns_def
        date_terms_def category_terms_def date_indicators_def category_indicators_def an_eval)

end
